theory Spec2Isabelle
  imports Main "HOL-Library.Sublist" "HOL-Library.AList"
begin

section \<open>Shared data model\<close>

text \<open>
  The scripts are Python. Strings are modelled as \<open>string\<close>, a batch tensor of shape
  (batch, length) as a list of rows of token ids, a dataset split as the list of its
  rows, a dictionary as a map or as the list of its items, and a raised exception as the
  \<open>Inl\<close> branch of a sum.
\<close>

datatype py_error = KeyError | IndexError | TypeError | AttributeError | JSONDecodeError

text \<open>The values a dataset column, a parsed JSON text or a chat message may hold.\<close>

datatype pyval =
    PNone
  | PBool bool
  | PNum int
  | PStr string
  | PList "pyval list"
  | PDict "(string \<times> pyval) list"

section \<open>test.py: the stopping criterion\<close>

text \<open>
  Python's \<^verbatim>\<open>stop_string in decoded_generation\<close> on two strings: the first occurs in the
  second as a contiguous run of characters. Written here as the scan it is.
\<close>

fun str_in :: "string \<Rightarrow> string \<Rightarrow> bool" where
  "str_in sub [] = (sub = [])"
| "str_in sub (c # cs) = (prefix sub (c # cs) \<or> str_in sub cs)"

text \<open>
  \<^verbatim>\<open>
  class EndOfFunctionCriteria(StoppingCriteria):
      def __init__(self, start_length, eof_strings, tokenizer): ...
      def __call__(self, input_ids, scores, **kwargs):
          decoded_generations = self.tokenizer.batch_decode(input_ids[:, self.start_length:])
          done = []
          for decoded_generation in decoded_generations:
              done.append(any([stop_string in decoded_generation for stop_string in self.eof_strings]))
          return all(done)
  \<close>
  The tokenizer is the library's; its \<open>decode\<close> is a parameter, and \<open>batch_decode\<close>
  applies it to every row.
\<close>

record 'tok EndOfFunctionCriteria =
  start_length :: nat
  eof_strings :: "string list"
  tokenizer :: "'tok list \<Rightarrow> string"

definition batch_decode :: "('tok list \<Rightarrow> string) \<Rightarrow> 'tok list list \<Rightarrow> string list" where
  "batch_decode decode seqs = map decode seqs"

definition slice_from :: "nat \<Rightarrow> 'tok list list \<Rightarrow> 'tok list list" where
  "slice_from n input_ids = map (drop n) input_ids"

definition criteria_call :: "'tok EndOfFunctionCriteria \<Rightarrow> 'tok list list \<Rightarrow> bool" where
  "criteria_call self input_ids =
     (let decoded_generations = batch_decode (tokenizer self) (slice_from (start_length self) input_ids);
          done = map (\<lambda>decoded_generation.
                   list_ex (\<lambda>stop_string. str_in stop_string decoded_generation) (eof_strings self))
                 decoded_generations
      in list_all (\<lambda>d. d) done)"

subsection \<open>Trimming the last block of a generation\<close>

text \<open>
  \<^verbatim>\<open>
  HUMAN_EVAL_EOF_STRINGS = ["\nclass", "\ndef", "\n#", "\n@", "\nprint", "\nif"]

  def remove_last_block(string):
      """Remove the last block of the code containing EOF_STRINGS"""
      string_list = re.split("(%s)" % "|".join(HUMAN_EVAL_EOF_STRINGS), string)
      print(string_list)
      # last string should be ""
      return "".join(string_list[:-2])
  \<close>
  The pattern is the alternation of the six markers inside one capturing group, and no
  marker holds a character that is special in a regular expression, so a match at a
  position is the first marker, in list order, that is a prefix of the text there.
\<close>

definition newline :: char where
  "newline = CHR 0x0A"

definition HUMAN_EVAL_EOF_STRINGS :: "string list" where
  "HUMAN_EVAL_EOF_STRINGS =
     [newline # ''class'', newline # ''def'', newline # ''#'', newline # ''@'',
      newline # ''print'', newline # ''if'']"

text \<open>The alternation tried at one position: the first alternative that matches there.\<close>

definition match_at :: "string list \<Rightarrow> string \<Rightarrow> string option" where
  "match_at alternatives s = List.find (\<lambda>alt. prefix alt s) alternatives"

lemma match_at_Some:
  "match_at alts s = Some m \<Longrightarrow> m \<in> set alts \<and> prefix m s"
  by (auto simp: match_at_def find_Some_iff)

lemma match_at_None: "match_at alts s = None \<longleftrightarrow> (\<forall>m \<in> set alts. \<not> prefix m s)"
  by (auto simp: match_at_def find_None_iff)

lemma eof_string_nonempty: "m \<in> set HUMAN_EVAL_EOF_STRINGS \<Longrightarrow> m \<noteq> []"
  by (auto simp: HUMAN_EVAL_EOF_STRINGS_def)

text \<open>
  \<open>re.split\<close> with the capturing group: the scan goes left to right, \<open>piece\<close> is the
  text since the last match; at a match the piece and the matched marker are emitted and
  the scan goes on behind the match; at the end the last piece is emitted. The result is
  piece, marker, piece, ..., marker, piece.
\<close>

function re_split_scan :: "string \<Rightarrow> string \<Rightarrow> string list" where
  "re_split_scan piece [] = [piece]"
| "re_split_scan piece (c # cs) =
     (case match_at HUMAN_EVAL_EOF_STRINGS (c # cs) of
        Some m \<Rightarrow> piece # m # re_split_scan [] (drop (length m) (c # cs))
      | None \<Rightarrow> re_split_scan (piece @ [c]) cs)"
  by pat_completeness auto
termination
proof (relation "measure (\<lambda>(piece, s). length s)")
  show "wf (measure (\<lambda>(piece, s). length s))" by simp
next
  fix piece :: string and c cs m
  assume "match_at HUMAN_EVAL_EOF_STRINGS (c # cs) = Some m"
  then have "m \<noteq> []"
    using match_at_Some eof_string_nonempty by blast
  then show "(([], drop (length m) (c # cs)), (piece, c # cs)) \<in> measure (\<lambda>(piece, s). length s)"
    by (cases m) auto
next
  fix piece :: string and c cs
  show "((piece @ [c], cs), (piece, c # cs)) \<in> measure (\<lambda>(piece, s). length s)"
    by simp
qed

definition re_split :: "string \<Rightarrow> string list" where
  "re_split s = re_split_scan [] s"

text \<open>
  \<open>string_list[:-2]\<close> keeps all but the last two elements, and nothing of a list of
  fewer than two; the \<open>print\<close> only writes to the terminal.
\<close>

definition remove_last_block :: "string \<Rightarrow> string" where
  "remove_last_block s =
     (let string_list = re_split s
      in concat (take (length string_list - 2) string_list))"

text \<open>No marker occurs in a string.\<close>

definition no_eof :: "string \<Rightarrow> bool" where
  "no_eof s = (\<forall>m \<in> set HUMAN_EVAL_EOF_STRINGS. \<not> sublist m s)"

section \<open>utils.py: the ODEX test split\<close>

text \<open>
  \<^verbatim>\<open>
  def load_odex_test_dataset():
      dataset = load_dataset("neulab/odex")["test"]
      conala = load_dataset("neulab/docprompting-conala")["train"]
      dataset = dataset.filter(lambda example: example["intent"] not in conala["nl"])
      return dataset
  \<close>
  The two downloaded splits are the inputs. A row maps column names to values; reading
  a column that a row lacks raises \<open>KeyError\<close>.
\<close>

type_synonym row = "string \<rightharpoonup> pyval"

fun column :: "string \<Rightarrow> row list \<Rightarrow> py_error + pyval list" where
  "column f [] = Inr []"
| "column f (r # rs) =
     (case r f of
        None \<Rightarrow> Inl KeyError
      | Some v \<Rightarrow> (case column f rs of Inl e \<Rightarrow> Inl e | Inr vs \<Rightarrow> Inr (v # vs)))"

fun filter_not_in :: "string \<Rightarrow> pyval list \<Rightarrow> row list \<Rightarrow> py_error + row list" where
  "filter_not_in f vals [] = Inr []"
| "filter_not_in f vals (example # rest) =
     (case example f of
        None \<Rightarrow> Inl KeyError
      | Some v \<Rightarrow>
          (case filter_not_in f vals rest of
             Inl e \<Rightarrow> Inl e
           | Inr kept \<Rightarrow> Inr (if v \<notin> set vals then example # kept else kept)))"

definition load_odex_test_dataset :: "row list \<Rightarrow> row list \<Rightarrow> py_error + row list" where
  "load_odex_test_dataset odex_test conala_train =
     (case column ''nl'' conala_train of
        Inl e \<Rightarrow> Inl e
      | Inr nl \<Rightarrow> filter_not_in ''intent'' nl odex_test)"

section \<open>generate.py: the evaluation run\<close>

subsection \<open>Data\<close>

text \<open>
  A chat message is the dictionary \<^verbatim>\<open>{"role": ..., "content": ...}\<close>. A row of the
  dataset given to \<open>main\<close> has its columns and, under \<^verbatim>\<open>"messages"\<close>, its chat; the
  messages column is kept apart from the others, as a typed list. A retrieved document
  has its page content and its metadata dictionary.
\<close>

record message =
  role :: string
  content :: pyval

record sample =
  columns :: row
  messages :: "message list"

record document =
  page_content :: pyval
  metadata :: row

text \<open>
  The parsed command line, with the attributes \<open>main\<close> adds to it (\<open>model_name\<close>,
  \<open>dataset_name\<close>, \<open>max_new_tokens\<close>, \<open>instruction_field\<close>, \<open>reference_field\<close>).
  \<open>temperature\<close> is a float of which \<open>main\<close> uses only the text that an f-string gives;
  the field holds that text.
\<close>

record args =
  model_name_or_path :: string
  peft_checkpoint_path :: "string option"
  dataset_name_or_path :: string
  temperature :: string
  use_icl :: bool
  icl_seed :: int
  num_icl_examples :: int
  use_rag :: bool
  rag_top_k :: int
  model_name :: string
  dataset_name :: string
  max_new_tokens :: int
  instruction_field :: string
  reference_field :: string

text \<open>What \<open>json.dump\<close> is given: a metric's result, a string, or a dictionary of these.\<close>

datatype 'm jsonable =
    JStr string
  | JMetric 'm
  | JObj "(string \<times> 'm jsonable) list"

text \<open>
  The libraries the script calls, as parameters: \<open>Dataset.shuffle(seed)\<close>, \<open>json.loads\<close>
  (\<open>None\<close> when it raises \<open>JSONDecodeError\<close>), \<open>FAISS.from_documents\<close> with the embedding
  model, the store's \<open>similarity_search(query, k)\<close>, the step from a chat to the stripped
  response (chat template, \<open>model.generate\<close>, decoding, \<open>strip\<close>), the metrics'
  \<open>compute\<close> (for chrF with the optional \<open>word_order\<close>), and \<open>json.dump\<close>'s encoding.
\<close>

record ('kb, 'm) libraries =
  shuffle :: "int \<Rightarrow> sample list \<Rightarrow> sample list"
  json_loads :: "string \<Rightarrow> pyval option"
  from_documents :: "document list \<Rightarrow> 'kb"
  similarity_search :: "'kb \<Rightarrow> pyval \<Rightarrow> int \<Rightarrow> document list"
  respond :: "message list \<Rightarrow> string"
  em_compute :: "string list \<Rightarrow> pyval list \<Rightarrow> 'm"
  chrf_compute :: "string list \<Rightarrow> pyval list list \<Rightarrow> int option \<Rightarrow> 'm"
  json_dumps :: "'m jsonable \<Rightarrow> string"

text \<open>The files and directories the run leaves behind.\<close>

record filesystem =
  dirs :: "string set"
  files :: "string \<rightharpoonup> string"

subsection \<open>Python primitives\<close>

text \<open>\<open>d[k]\<close> on a dictionary.\<close>

definition getitem :: "row \<Rightarrow> string \<Rightarrow> py_error + pyval" where
  "getitem d k = (case d k of None \<Rightarrow> Inl KeyError | Some v \<Rightarrow> Inr v)"

text \<open>\<open>x[0]\<close> on a value that \<open>json.loads\<close> returned.\<close>

fun index0 :: "pyval \<Rightarrow> py_error + pyval" where
  "index0 (PList (x # xs)) = Inr x"
| "index0 (PList []) = Inl IndexError"
| "index0 (PStr (c # cs)) = Inr (PStr [c])"
| "index0 (PStr []) = Inl IndexError"
| "index0 (PDict kvs) = Inl KeyError"
| "index0 v = Inl TypeError"

text \<open>\<open>s.split(sep)\<close> for a one-character separator: never an empty list.\<close>

fun split_on :: "char \<Rightarrow> string \<Rightarrow> string list" where
  "split_on sep [] = [[]]"
| "split_on sep (c # cs) =
     (if c = sep then [] # split_on sep cs
      else (case split_on sep cs of
              [] \<Rightarrow> [[c]]
            | part # parts \<Rightarrow> (c # part) # parts))"

text \<open>The decimal text of an integer, as an f-string writes it.\<close>

definition digit_char :: "nat \<Rightarrow> char" where
  "digit_char d = ''0123456789'' ! d"

function str_nat :: "nat \<Rightarrow> string" where
  "str_nat n = (if n < 10 then [digit_char n] else str_nat (n div 10) @ [digit_char (n mod 10)])"
  by pat_completeness auto
termination
  by (relation "measure (\<lambda>n. n)") auto

declare str_nat.simps [simp del]

definition str_int :: "int \<Rightarrow> string" where
  "str_int i = (if i < 0 then CHR ''-'' # str_nat (nat (- i)) else str_nat (nat i))"

text \<open>
  \<open>dataset.select(range(n))\<close>: the first \<open>n\<close> rows. An empty dataset is returned as it
  is, an empty range selects nothing, and a range that reaches past the last row raises
  \<open>IndexError\<close>.
\<close>

definition select_range :: "int \<Rightarrow> 'a list \<Rightarrow> py_error + 'a list" where
  "select_range n rows =
     (if rows = [] then Inr []
      else if n \<le> 0 then Inr []
      else if nat n \<le> length rows then Inr (take (nat n) rows)
      else Inl IndexError)"

subsection \<open>prepare_input\<close>

text \<open>
  \<^verbatim>\<open>
  def prepare_input(sample, knowledge_base_vectors, args):
      if args.use_rag:
          query = sample[args.instruction_field]
          retrieved_docs = knowledge_base_vectors.similarity_search(query=query, k=args.rag_top_k)
          chat_docs = []
          for doc in retrieved_docs:
              chat_docs += [
                  {"role": "user", "content": doc.page_content},
                  {"role": "assistant", "content": doc.metadata["code"]}
              ]
          return chat_docs + sample["messages"][:-1]
      return sample["messages"][:-1]
  \<close>
  \<open>knowledge_base_vectors\<close> is \<open>None\<close> or a vector store; calling a method of \<open>None\<close>
  raises \<open>AttributeError\<close>.
\<close>

fun chat_docs_loop :: "message list \<Rightarrow> document list \<Rightarrow> py_error + message list" where
  "chat_docs_loop chat_docs [] = Inr chat_docs"
| "chat_docs_loop chat_docs (doc # retrieved_docs) =
     (case getitem (metadata doc) ''code'' of
        Inl e \<Rightarrow> Inl e
      | Inr code \<Rightarrow>
          chat_docs_loop
            (chat_docs @ [\<lparr>role = ''user'', content = page_content doc\<rparr>,
                          \<lparr>role = ''assistant'', content = code\<rparr>])
            retrieved_docs)"

definition prepare_input ::
  "('kb, 'm) libraries \<Rightarrow> sample \<Rightarrow> 'kb option \<Rightarrow> args \<Rightarrow> py_error + message list" where
  "prepare_input lib sample knowledge_base_vectors args =
     (if use_rag args then
        (case getitem (columns sample) (instruction_field args) of
           Inl e \<Rightarrow> Inl e
         | Inr query \<Rightarrow>
             (case knowledge_base_vectors of
                None \<Rightarrow> Inl AttributeError
              | Some store \<Rightarrow>
                  (case chat_docs_loop [] (similarity_search lib store query (rag_top_k args)) of
                     Inl e \<Rightarrow> Inl e
                   | Inr chat_docs \<Rightarrow> Inr (chat_docs @ butlast (messages sample)))))
      else Inr (butlast (messages sample)))"

subsection \<open>generate\<close>

text \<open>
  \<^verbatim>\<open>
  for sample in p.track(dataset):
      example = prepare_input(sample, knowledge_base_vectors, args)
      inputs = tokenizer.apply_chat_template(example, ...)
      outputs = model.generate(...)
      response_ids = outputs[0][inputs["input_ids"].shape[1]:]
      response = tokenizer.decode(response_ids, skip_special_tokens=False)
      yield response.strip()
  \<close>
  The responses in the order of the dataset; an exception of \<open>prepare_input\<close> ends the
  run.
\<close>

fun generate ::
  "('kb, 'm) libraries \<Rightarrow> args \<Rightarrow> sample list \<Rightarrow> 'kb option \<Rightarrow> py_error + string list" where
  "generate lib args [] knowledge_base_vectors = Inr []"
| "generate lib args (sample # dataset) knowledge_base_vectors =
     (case prepare_input lib sample knowledge_base_vectors args of
        Inl e \<Rightarrow> Inl e
      | Inr example \<Rightarrow>
          (case generate lib args dataset knowledge_base_vectors of
             Inl e \<Rightarrow> Inl e
           | Inr responses \<Rightarrow> Inr (respond lib example # responses)))"

subsection \<open>compute_metrics\<close>

text \<open>
  \<^verbatim>\<open>
  def compute_metrics(args, responses, dataset):
      if args.dataset_name == "apps":
          """
          @todo: fix pyext and Python 3.12 --> try downgrading to 3.11

          responses = [[resp] for resp in responses]
          apps_metric = evaluate.load('codeparrot/apps_metric')
          metrics = apps_metric.compute(predictions=responses, level="all")
          print(f"APPs: {metrics}")
          """
          return {}
      else:
          chrf = evaluate.load("chrf")
          em = evaluate.load("exact_match")
          references = dataset[args.reference_field]
          results_em = em.compute(predictions=responses, references=references)
          references_chrf = [[ref] for ref in references]
          results_chrf = chrf.compute(predictions=responses, references=references_chrf)
          results_chrf2 = chrf.compute(predictions=responses, references=references_chrf, word_order=2)
          return {"em": results_em, "chrf": results_chrf, "chrf2": results_chrf2}
  \<close>
  In the apps branch the evaluation stands inside a string literal, which is not run. A
  dictionary is the list of its items in insertion order.
\<close>

definition compute_metrics ::
  "('kb, 'm) libraries \<Rightarrow> args \<Rightarrow> string list \<Rightarrow> sample list
     \<Rightarrow> py_error + (string \<times> 'm jsonable) list" where
  "compute_metrics lib args responses dataset =
     (if dataset_name args = ''apps'' then Inr []
      else
        (case column (reference_field args) (map columns dataset) of
           Inl e \<Rightarrow> Inl e
         | Inr references \<Rightarrow>
             (let results_em = em_compute lib responses references;
                  references_chrf = map (\<lambda>ref. [ref]) references;
                  results_chrf = chrf_compute lib responses references_chrf None;
                  results_chrf2 = chrf_compute lib responses references_chrf (Some 2)
              in Inr [(''em'', JMetric results_em),
                      (''chrf'', JMetric results_chrf),
                      (''chrf2'', JMetric results_chrf2)])))"

subsection \<open>main\<close>

text \<open>
  \<^verbatim>\<open>
  args.model_name = args.model_name_or_path.split("/")[-1]
  ...
  args.dataset_name = args.dataset_name_or_path.split("/")[-1]
  if args.dataset_name == "conala":
      args.max_new_tokens = 128
      args.instruction_field = "nl"
      args.reference_field = "cmd"
  elif args.dataset_name == "codealpaca":
      args.max_new_tokens = 512
      args.instruction_field = "prompt"
      args.reference_field = "completion"
  else:
      args.max_new_tokens = 1024
      args.instruction_field = "question"
      args.reference_field = "solutions"
  \<close>
\<close>

definition main_configure :: "args \<Rightarrow> args" where
  "main_configure args0 =
     (let args = args0\<lparr>model_name := last (split_on CHR ''/'' (model_name_or_path args0))\<rparr>;
          args = args\<lparr>dataset_name := last (split_on CHR ''/'' (dataset_name_or_path args))\<rparr>
      in if dataset_name args = ''conala'' then
           args\<lparr>max_new_tokens := 128, instruction_field := ''nl'', reference_field := ''cmd''\<rparr>
         else if dataset_name args = ''codealpaca'' then
           args\<lparr>max_new_tokens := 512, instruction_field := ''prompt'',
                reference_field := ''completion''\<rparr>
         else
           args\<lparr>max_new_tokens := 1024, instruction_field := ''question'',
                reference_field := ''solutions''\<rparr>)"

text \<open>
  \<^verbatim>\<open>
  knowledge_base_vectors = None
  if args.use_icl:
      examples = (load_from_disk(args.dataset_name_or_path)["train"]
                  .shuffle(args.icl_seed).select(range(args.num_icl_examples)))
      chat_icl = []
      for example in examples:
          if args.dataset_name == "apps":
              reference = json.loads(example[args.reference_field])[0]
          else:
              reference = example[args.reference_field]
          chat_exemple = [
              {"role": "user", "content": example[args.instruction_field]},
              {"role": "assistant", "content": reference},
          ]
          chat_icl += chat_exemple

      def add_icl_prompt(example):
          example["messages"] = chat_icl + example["messages"]
          return example

      dataset = dataset.map(add_icl_prompt, num_proc=16)
  elif args.use_rag:
      examples = load_from_disk(args.dataset_name_or_path)["train"]
      knowledge_base = [
          LangchainDocument(page_content=sample[args.instruction_field],
                            metadata={"code": sample[args.reference_field]})
          for sample in tqdm(examples)
      ]
      embedding_model = HuggingFaceEmbeddings(...)
      knowledge_base_vectors = FAISS.from_documents(knowledge_base, embedding_model, ...)
  \<close>
  The train and test splits read from disk are inputs. \<open>json.loads\<close> takes a string and
  raises \<open>TypeError\<close> on another value.
\<close>

definition icl_reference ::
  "('kb, 'm) libraries \<Rightarrow> args \<Rightarrow> sample \<Rightarrow> py_error + pyval" where
  "icl_reference lib args example =
     (if dataset_name args = ''apps'' then
        (case getitem (columns example) (reference_field args) of
           Inl e \<Rightarrow> Inl e
         | Inr (PStr text) \<Rightarrow>
             (case json_loads lib text of
                None \<Rightarrow> Inl JSONDecodeError
              | Some parsed \<Rightarrow> index0 parsed)
         | Inr _ \<Rightarrow> Inl TypeError)
      else getitem (columns example) (reference_field args))"

fun chat_icl_loop ::
  "('kb, 'm) libraries \<Rightarrow> args \<Rightarrow> message list \<Rightarrow> sample list \<Rightarrow> py_error + message list" where
  "chat_icl_loop lib args chat_icl [] = Inr chat_icl"
| "chat_icl_loop lib args chat_icl (example # examples) =
     (case icl_reference lib args example of
        Inl e \<Rightarrow> Inl e
      | Inr reference \<Rightarrow>
          (case getitem (columns example) (instruction_field args) of
             Inl e \<Rightarrow> Inl e
           | Inr instruction \<Rightarrow>
               chat_icl_loop lib args
                 (chat_icl @ [\<lparr>role = ''user'', content = instruction\<rparr>,
                             \<lparr>role = ''assistant'', content = reference\<rparr>])
                 examples))"

definition add_icl_prompt :: "message list \<Rightarrow> sample \<Rightarrow> sample" where
  "add_icl_prompt chat_icl example = example\<lparr>messages := chat_icl @ messages example\<rparr>"

fun knowledge_base_of :: "args \<Rightarrow> sample list \<Rightarrow> py_error + document list" where
  "knowledge_base_of args [] = Inr []"
| "knowledge_base_of args (sample # examples) =
     (case getitem (columns sample) (instruction_field args) of
        Inl e \<Rightarrow> Inl e
      | Inr instruction \<Rightarrow>
          (case getitem (columns sample) (reference_field args) of
             Inl e \<Rightarrow> Inl e
           | Inr reference \<Rightarrow>
               (case knowledge_base_of args examples of
                  Inl e \<Rightarrow> Inl e
                | Inr knowledge_base \<Rightarrow>
                    Inr (\<lparr>page_content = instruction, metadata = [''code'' \<mapsto> reference]\<rparr>
                         # knowledge_base))))"

definition main_prepare ::
  "('kb, 'm) libraries \<Rightarrow> args \<Rightarrow> sample list \<Rightarrow> sample list
     \<Rightarrow> py_error + (sample list \<times> 'kb option)" where
  "main_prepare lib args train dataset =
     (if use_icl args then
        (case select_range (num_icl_examples args) (shuffle lib (icl_seed args) train) of
           Inl e \<Rightarrow> Inl e
         | Inr examples \<Rightarrow>
             (case chat_icl_loop lib args [] examples of
                Inl e \<Rightarrow> Inl e
              | Inr chat_icl \<Rightarrow> Inr (map (add_icl_prompt chat_icl) dataset, None)))
      else if use_rag args then
        (case knowledge_base_of args train of
           Inl e \<Rightarrow> Inl e
         | Inr knowledge_base \<Rightarrow> Inr (dataset, Some (from_documents lib knowledge_base)))
      else Inr (dataset, None))"

text \<open>
  \<^verbatim>\<open>
  responses, init_gpu_memory, peak_gpu_memory, total_execution_time = (
      generate(args, dataset, model, tokenizer, knowledge_base_vectors)
  )
  metrics = compute_metrics(args, responses, dataset)
  metrics = {
      **metrics,
      "init_gpu_memory": f"{init_gpu_memory} MB",
      "peak_gpu_memory": f"{peak_gpu_memory} MB",
      "total_execution_time": f"{total_execution_time} seconds"
  }
  output_dir = (
      f"{args.peft_checkpoint_path}/results" if args.peft_checkpoint_path
      else f"runs/{args.model_name}/results"
  )
  os.makedirs(output_dir, exist_ok=True)
  file_suffix = f"{args.dataset_name}_t{args.temperature}"
  if args.use_icl:
      file_suffix += f"_icl_n{args.num_icl_examples}_s{args.icl_seed}"
  elif args.use_rag:
      file_suffix += f"_rag_k{args.rag_top_k}"
  with open(f"{output_dir}/metrics_{file_suffix}.jsonl", "w") as fout:
      json.dump(metrics, fout)
  with open(f"{output_dir}/responses_{file_suffix}.jsonl", "w") as fout:
      for response in responses:
          json.dump({"response": response}, fout)
          fout.write("\n")
  \<close>
  The decorator \<open>track_gpu_usage\<close> of \<open>generate\<close> is not among the sources; the three
  measurements it returns beside the responses are inputs, each as the text an f-string
  gives of it. Setting a key of a dictionary replaces the value of a key that is there
  and adds a new key at the end. A path that is \<open>None\<close> or the empty string is false
  in a condition.
\<close>

record gpu_usage =
  init_gpu_memory :: string
  peak_gpu_memory :: string
  total_execution_time :: string

definition main_metrics ::
  "(string \<times> 'm jsonable) list \<Rightarrow> gpu_usage \<Rightarrow> (string \<times> 'm jsonable) list" where
  "main_metrics metrics usage =
     AList.update ''total_execution_time'' (JStr (total_execution_time usage @ '' seconds''))
       (AList.update ''peak_gpu_memory'' (JStr (peak_gpu_memory usage @ '' MB''))
         (AList.update ''init_gpu_memory'' (JStr (init_gpu_memory usage @ '' MB'')) metrics))"

definition output_dir :: "args \<Rightarrow> string" where
  "output_dir args =
     (case peft_checkpoint_path args of
        None \<Rightarrow> ''runs/'' @ model_name args @ ''/results''
      | Some path \<Rightarrow>
          if path \<noteq> [] then path @ ''/results''
          else ''runs/'' @ model_name args @ ''/results'')"

definition file_suffix :: "args \<Rightarrow> string" where
  "file_suffix args =
     (let file_suffix = dataset_name args @ ''_t'' @ temperature args
      in if use_icl args then
           file_suffix @ ''_icl_n'' @ str_int (num_icl_examples args)
             @ ''_s'' @ str_int (icl_seed args)
         else if use_rag args then file_suffix @ ''_rag_k'' @ str_int (rag_top_k args)
         else file_suffix)"

definition metrics_path :: "args \<Rightarrow> string" where
  "metrics_path args = output_dir args @ ''/metrics_'' @ file_suffix args @ ''.jsonl''"

definition responses_path :: "args \<Rightarrow> string" where
  "responses_path args = output_dir args @ ''/responses_'' @ file_suffix args @ ''.jsonl''"

text \<open>The loop over the responses; \<open>fout\<close> is what has been written to the file so far.\<close>

fun write_responses :: "('kb, 'm) libraries \<Rightarrow> string \<Rightarrow> string list \<Rightarrow> string" where
  "write_responses lib fout [] = fout"
| "write_responses lib fout (response # responses) =
     write_responses lib
       (fout @ json_dumps lib (JObj [(''response'', JStr response)]) @ [newline])
       responses"

definition main_write ::
  "('kb, 'm) libraries \<Rightarrow> args \<Rightarrow> (string \<times> 'm jsonable) list \<Rightarrow> string list
     \<Rightarrow> gpu_usage \<Rightarrow> filesystem \<Rightarrow> filesystem" where
  "main_write lib args metrics responses usage fs =
     (let metrics = main_metrics metrics usage;
          fs = fs\<lparr>dirs := insert (output_dir args) (dirs fs)\<rparr>;
          fs = fs\<lparr>files := (files fs)(metrics_path args \<mapsto> json_dumps lib (JObj metrics))\<rparr>;
          fs = fs\<lparr>files := (files fs)(responses_path args \<mapsto> write_responses lib [] responses)\<rparr>
      in fs)"

definition main ::
  "('kb, 'm) libraries \<Rightarrow> args \<Rightarrow> sample list \<Rightarrow> sample list \<Rightarrow> gpu_usage
     \<Rightarrow> filesystem \<Rightarrow> py_error + filesystem" where
  "main lib args0 train test usage fs =
     (let args = main_configure args0
      in case main_prepare lib args train test of
           Inl e \<Rightarrow> Inl e
         | Inr (dataset, knowledge_base_vectors) \<Rightarrow>
             (case generate lib args dataset knowledge_base_vectors of
                Inl e \<Rightarrow> Inl e
              | Inr responses \<Rightarrow>
                  (case compute_metrics lib args responses dataset of
                     Inl e \<Rightarrow> Inl e
                   | Inr metrics \<Rightarrow> Inr (main_write lib args metrics responses usage fs))))"

subsection \<open>An example run\<close>

text \<open>
  Stand-ins for the libraries and a two-row training split, on which the properties
  below are instantiated. The stand-in store is the list of its documents and returns
  the first \<open>k\<close> of them; the stand-in encoder writes strings in double quotes with a
  line break as backslash-n.
\<close>

definition double_quote :: char where
  "double_quote = CHR 0x22"

fun join_with :: "string \<Rightarrow> string list \<Rightarrow> string" where
  "join_with sep [] = []"
| "join_with sep [x] = x"
| "join_with sep (x # y # ys) = x @ sep @ join_with sep (y # ys)"

definition quoted :: "string \<Rightarrow> string" where
  "quoted s =
     double_quote # concat (map (\<lambda>c. if c = newline then [CHR 0x5C, CHR ''n''] else [c]) s)
       @ [double_quote]"

fun example_dumps :: "nat jsonable \<Rightarrow> string" where
  "example_dumps (JStr s) = quoted s"
| "example_dumps (JMetric n) = str_nat n"
| "example_dumps (JObj items) =
     ''{'' @ join_with '', ''
               (map (\<lambda>item. quoted (fst item) @ '': '' @ example_dumps (snd item)) items)
       @ ''}''"

definition example_solutions :: string where
  "example_solutions = ''['' @ [double_quote] @ ''return 1'' @ [double_quote] @ '']''"

definition example_lib :: "(document list, nat) libraries" where
  "example_lib =
     \<lparr>shuffle = (\<lambda>seed rows. rev rows),
      json_loads = (\<lambda>s. if s = example_solutions then Some (PList [PStr ''return 1'']) else None),
      from_documents = (\<lambda>knowledge_base. knowledge_base),
      similarity_search = (\<lambda>store query k. take (nat k) store),
      respond = (\<lambda>chat. ''pass''),
      em_compute = (\<lambda>predictions references. 0),
      chrf_compute = (\<lambda>predictions references word_order. 0),
      json_dumps = example_dumps\<rparr>"

definition example_args :: args where
  "example_args =
     \<lparr>model_name_or_path = ''Salesforce/codegen-350M-mono'',
      peft_checkpoint_path = None,
      dataset_name_or_path = ''datasets/conala'',
      temperature = ''0.2'',
      use_icl = False, icl_seed = 42, num_icl_examples = 2,
      use_rag = False, rag_top_k = 1,
      model_name = [], dataset_name = [], max_new_tokens = 0,
      instruction_field = [], reference_field = []\<rparr>"

definition example_train :: "sample list" where
  "example_train =
     [\<lparr>columns = [''nl'' \<mapsto> PStr ''sort xs'', ''cmd'' \<mapsto> PStr ''xs.sort()''], messages = []\<rparr>,
      \<lparr>columns = [''nl'' \<mapsto> PStr ''clear xs'', ''cmd'' \<mapsto> PStr ''xs.clear()''], messages = []\<rparr>]"

definition example_sample :: sample where
  "example_sample =
     \<lparr>columns = [''nl'' \<mapsto> PStr ''reverse xs'', ''cmd'' \<mapsto> PStr ''xs.reverse()''],
      messages = [\<lparr>role = ''user'', content = PStr ''reverse xs''\<rparr>,
                  \<lparr>role = ''assistant'', content = PStr ''xs.reverse()''\<rparr>]\<rparr>"

definition example_usage :: gpu_usage where
  "example_usage =
     \<lparr>init_gpu_memory = ''512'', peak_gpu_memory = ''2048'', total_execution_time = ''3.5''\<rparr>"

definition example_store :: "document list" where
  "example_store =
     [\<lparr>page_content = PStr ''sort xs'', metadata = [''code'' \<mapsto> PStr ''xs.sort()'']\<rparr>,
      \<lparr>page_content = PStr ''clear xs'', metadata = [''code'' \<mapsto> PStr ''xs.clear()'']\<rparr>]"

definition example_apps_args :: args where
  "example_apps_args =
     example_args\<lparr>dataset_name_or_path := ''datasets/apps'', use_icl := True,
                   num_icl_examples := 1\<rparr>"

definition example_apps_train :: "sample list" where
  "example_apps_train =
     [\<lparr>columns = [''question'' \<mapsto> PStr ''give one'', ''solutions'' \<mapsto> PStr example_solutions],
       messages = []\<rparr>]"

definition empty_disk :: filesystem where
  "empty_disk = \<lparr>dirs = {}, files = Map.empty\<rparr>"

definition example_icl_dataset :: "sample list" where
  "example_icl_dataset =
     [example_sample\<lparr>messages :=
        [\<lparr>role = ''user'', content = PStr ''clear xs''\<rparr>,
         \<lparr>role = ''assistant'', content = PStr ''xs.clear()''\<rparr>,
         \<lparr>role = ''user'', content = PStr ''sort xs''\<rparr>,
         \<lparr>role = ''assistant'', content = PStr ''xs.sort()''\<rparr>]
        @ messages example_sample\<rparr>]"

definition example_metrics :: "(string \<times> nat jsonable) list" where
  "example_metrics = [(''em'', JMetric 0), (''chrf'', JMetric 0), (''chrf2'', JMetric 0)]"

section \<open>Properties of the stopping criterion\<close>

lemma str_in_sublist: "str_in sub s = sublist sub s"
  by (induction s) (auto simp: sublist_Cons_right)

lemma criteria_call_iff:
  "criteria_call self input_ids =
     (\<forall>seq \<in> set input_ids. \<exists>stop_string \<in> set (eof_strings self).
        sublist stop_string (tokenizer self (drop (start_length self) seq)))"
  by (simp add: criteria_call_def batch_decode_def slice_from_def list_all_iff list_ex_iff
      str_in_sublist Let_def)

text \<open>
  C1. The criterion answers True exactly when every sequence of the batch, decoded from
  position \<open>start_length\<close> on, contains one of the end-of-function strings; and two batches
  that differ only before \<open>start_length\<close> (the prompts, written \<open>p\<close> and \<open>q\<close>) get the
  same answer.
\<close>

theorem EndOfFunctionCriteria_call_correct:
  "(criteria_call self input_ids \<longleftrightarrow>
      (\<forall>seq \<in> set input_ids. \<exists>stop_string \<in> set (eof_strings self).
         \<exists>before after. tokenizer self (drop (start_length self) seq) = before @ stop_string @ after))
   \<and> (\<forall>prompts1 prompts2 gens.
         length prompts1 = length gens \<and> length prompts2 = length gens \<and>
         (\<forall>p \<in> set prompts1. length p = start_length self) \<and>
         (\<forall>q \<in> set prompts2. length q = start_length self) \<longrightarrow>
         criteria_call self (map2 (@) prompts1 gens) = criteria_call self (map2 (@) prompts2 gens))"
proof (intro conjI allI impI)
  show "criteria_call self input_ids \<longleftrightarrow>
      (\<forall>seq \<in> set input_ids. \<exists>stop_string \<in> set (eof_strings self).
         \<exists>before after. tokenizer self (drop (start_length self) seq) = before @ stop_string @ after)"
    by (simp add: criteria_call_iff sublist_def)
next
  fix prompts1 prompts2 :: "'a list list" and gens :: "'a list list"
  assume h: "length prompts1 = length gens \<and> length prompts2 = length gens \<and>
         (\<forall>p \<in> set prompts1. length p = start_length self) \<and>
         (\<forall>q \<in> set prompts2. length q = start_length self)"
  have drop_all: "map (drop (start_length self)) (map2 (@) ps gens) = gens"
    if "length ps = length gens" "\<forall>p \<in> set ps. length p = start_length self" for ps
    using that
  proof (induction ps arbitrary: gens)
    case Nil
    then show ?case by simp
  next
    case (Cons p ps)
    then show ?case by (cases gens) auto
  qed
  have a: "map (drop (start_length self)) (map2 (@) prompts1 gens) = gens"
    using h by (intro drop_all) blast+
  have b: "map (drop (start_length self)) (map2 (@) prompts2 gens) = gens"
    using h by (intro drop_all) blast+
  have "slice_from (start_length self) (map2 (@) prompts1 gens)
      = slice_from (start_length self) (map2 (@) prompts2 gens)"
    unfolding slice_from_def by (simp only: a b)
  then show "criteria_call self (map2 (@) prompts1 gens) = criteria_call self (map2 (@) prompts2 gens)"
    by (simp add: criteria_call_def)
qed

theorem EndOfFunctionCriteria_call_witness:
  "criteria_call \<lparr>start_length = 2, eof_strings = [''</s>''], tokenizer = (\<lambda>x. x)\<rparr> [''ab</s>'']
   \<and> criteria_call \<lparr>start_length = 2, eof_strings = [''</s>''], tokenizer = (\<lambda>x. x)\<rparr>
         (map2 (@) [''ab''] [''</s>''])
     = criteria_call \<lparr>start_length = 2, eof_strings = [''</s>''], tokenizer = (\<lambda>x. x)\<rparr>
         (map2 (@) [''xy''] [''</s>''])"
proof -
  let ?self = "\<lparr>start_length = 2, eof_strings = [''</s>''], tokenizer = (\<lambda>x. x)\<rparr>
                 :: char EndOfFunctionCriteria"
  note t = EndOfFunctionCriteria_call_correct [of ?self "[''ab</s>'']"]
  have e: "\<exists>before after. ''</s>'' = before @ ''</s>'' @ after"
    by (intro exI [of _ "[]"]) simp
  have first: "criteria_call ?self [''ab</s>'']"
    using t e by simp
  have second: "criteria_call ?self (map2 (@) [''ab''] [''</s>''])
      = criteria_call ?self (map2 (@) [''xy''] [''</s>''])"
    using t [THEN conjunct2, rule_format, of "[''ab'']" "[''</s>'']" "[''xy'']"] by simp
  show ?thesis using first second by blast
qed

section \<open>Properties of the block trimming\<close>

lemma no_eof_Nil: "no_eof []"
  using eof_string_nonempty by (auto simp: no_eof_def)

lemma no_eof_Cons:
  "no_eof (c # cs) \<longleftrightarrow> match_at HUMAN_EVAL_EOF_STRINGS (c # cs) = None \<and> no_eof cs"
  by (auto simp: no_eof_def match_at_None sublist_Cons_right)

lemma no_eof_drop: "no_eof s \<Longrightarrow> no_eof (drop k s)"
  unfolding no_eof_def by (meson sublist_drop sublist_order.order_trans)

lemma concat_re_split_scan: "concat (re_split_scan piece s) = piece @ s"
proof (induction piece s rule: re_split_scan.induct)
  case (1 piece)
  then show ?case by simp
next
  case (2 piece c cs)
  show ?case
  proof (cases "match_at HUMAN_EVAL_EOF_STRINGS (c # cs)")
    case None
    then show ?thesis using 2 by simp
  next
    case (Some m)
    then have "prefix m (c # cs)" using match_at_Some by blast
    then have "m @ drop (length m) (c # cs) = c # cs"
      by (metis append_eq_conv_conj prefixE)
    then show ?thesis using 2 Some by simp
  qed
qed

lemma re_split_scan_no_eof: "no_eof s \<Longrightarrow> re_split_scan piece s = [piece @ s]"
proof (induction piece s rule: re_split_scan.induct)
  case (1 piece)
  then show ?case by simp
next
  case (2 piece c cs)
  then show ?case by (simp add: no_eof_Cons)
qed

lemma re_split_scan_eof:
  "\<not> no_eof s \<Longrightarrow>
   \<exists>pieces m rest. re_split_scan piece s = pieces @ [m, rest]
      \<and> m \<in> set HUMAN_EVAL_EOF_STRINGS \<and> no_eof rest"
proof (induction piece s rule: re_split_scan.induct)
  case (1 piece)
  then show ?case by (simp add: no_eof_Nil)
next
  case (2 piece c cs)
  show ?case
  proof (cases "match_at HUMAN_EVAL_EOF_STRINGS (c # cs)")
    case None
    then have "\<not> no_eof cs" using 2(3) by (simp add: no_eof_Cons)
    then show ?thesis using 2(1) [OF None] None by simp
  next
    case (Some m)
    let ?s' = "drop (length m) (c # cs)"
    have m: "m \<in> set HUMAN_EVAL_EOF_STRINGS" using Some match_at_Some by blast
    show ?thesis
    proof (cases "no_eof ?s'")
      case True
      then have "re_split_scan piece (c # cs) = [piece] @ [m, ?s']"
        using Some re_split_scan_no_eof [of ?s' "[]"] by simp
      then show ?thesis using m True by blast
    next
      case False
      then obtain pieces m' rest where
        "re_split_scan [] ?s' = pieces @ [m', rest]"
        "m' \<in> set HUMAN_EVAL_EOF_STRINGS" "no_eof rest"
        using 2(2) [OF Some] by blast
      then have "re_split_scan piece (c # cs) = (piece # m # pieces) @ [m', rest]"
        using Some by simp
      then show ?thesis
        using \<open>m' \<in> set HUMAN_EVAL_EOF_STRINGS\<close> \<open>no_eof rest\<close> by blast
    qed
  qed
qed

lemma eof_string_shape:
  "m \<in> set HUMAN_EVAL_EOF_STRINGS \<Longrightarrow> \<exists>t. m = newline # t \<and> newline \<notin> set t"
  by (auto simp: HUMAN_EVAL_EOF_STRINGS_def newline_def)

text \<open>No marker begins strictly inside an occurrence of a marker, and none in a marker-free rest.\<close>

lemma no_later_eof:
  assumes m: "m \<in> set HUMAN_EVAL_EOF_STRINGS" and m': "m' \<in> set HUMAN_EVAL_EOF_STRINGS"
    and rest: "no_eof rest"
    and eq: "m @ rest = u @ m' @ after"
  shows "u = []"
proof (rule ccontr)
  assume "u \<noteq> []"
  obtain t where t: "m = newline # t" "newline \<notin> set t"
    using eof_string_shape [OF m] by blast
  obtain t' where t': "m' = newline # t'"
    using eof_string_shape [OF m'] by blast
  show False
  proof (cases "length m \<le> length u")
    case True
    then have "rest = drop (length m) u @ m' @ after"
      using eq by (metis append_eq_conv_conj drop_append diff_is_0_eq' drop_0) 
    then have "sublist m' rest" by (metis sublist_appendI)
    then show False using rest m' by (simp add: no_eof_def)
  next
    case False
    then have lt: "length u < length m" by simp
    have "(m @ rest) ! length u = m ! length u"
      using lt by (simp add: nth_append)
    moreover have "(u @ m' @ after) ! length u = newline"
      by (simp add: t')
    ultimately have "m ! length u = newline" using eq by simp
    moreover have "0 < length u" using \<open>u \<noteq> []\<close> by simp
    ultimately have "newline \<in> set t"
      using t lt by (cases "length u") (auto simp: set_conv_nth)
    then show False using t by simp
  qed
qed

text \<open>
  C2. For a string that contains a marker of \<open>HUMAN_EVAL_EOF_STRINGS\<close>,
  \<open>remove_last_block\<close> returns the prefix of the string that ends just before its last
  marker occurrence: the string is that prefix, a marker, and a rest, and no occurrence
  of any marker starts behind the end of the prefix.
\<close>

theorem remove_last_block_trims_last_marker:
  assumes "\<exists>m \<in> set HUMAN_EVAL_EOF_STRINGS. \<exists>before after. s = before @ m @ after"
  shows "\<exists>m rest. m \<in> set HUMAN_EVAL_EOF_STRINGS
      \<and> s = remove_last_block s @ m @ rest
      \<and> (\<forall>m' \<in> set HUMAN_EVAL_EOF_STRINGS. \<forall>before after.
            s = before @ m' @ after \<longrightarrow> length before \<le> length (remove_last_block s))"
proof -
  have "\<not> no_eof s" using assms by (auto simp: no_eof_def sublist_def)
  then obtain pieces m rest where
    l: "re_split_scan [] s = pieces @ [m, rest]"
    and m: "m \<in> set HUMAN_EVAL_EOF_STRINGS" and rest: "no_eof rest"
    using re_split_scan_eof by blast
  have r: "remove_last_block s = concat pieces"
    by (simp add: remove_last_block_def re_split_def l)
  have s: "s = concat pieces @ m @ rest"
    using concat_re_split_scan [of "[]" s] l by simp
  have last: "length before \<le> length (concat pieces)"
    if m': "m' \<in> set HUMAN_EVAL_EOF_STRINGS" and occ: "s = before @ m' @ after"
    for m' before after
  proof (rule ccontr)
    assume "\<not> length before \<le> length (concat pieces)"
    then have lt: "length (concat pieces) < length before" by simp
    have "concat pieces @ m @ rest = before @ m' @ after" using s occ by simp
    then obtain u where u: "before = concat pieces @ u" "m @ rest = u @ m' @ after"
      using lt by (auto simp: append_eq_append_conv2)
    then have "u = []" using no_later_eof [OF m m' rest] by blast
    then show False using u lt by simp
  qed
  show ?thesis using m s r last by metis
qed

theorem remove_last_block_trims_last_marker_witness:
  "(\<exists>m rest. m \<in> set HUMAN_EVAL_EOF_STRINGS
      \<and> ''x = 1'' @ newline # ''def f():'' @ newline # ''if x''
          = remove_last_block (''x = 1'' @ newline # ''def f():'' @ newline # ''if x'') @ m @ rest
      \<and> (\<forall>m' \<in> set HUMAN_EVAL_EOF_STRINGS. \<forall>before after.
            ''x = 1'' @ newline # ''def f():'' @ newline # ''if x'' = before @ m' @ after \<longrightarrow>
            length before
              \<le> length (remove_last_block (''x = 1'' @ newline # ''def f():'' @ newline # ''if x''))))
   \<and> remove_last_block (''x = 1'' @ newline # ''def f():'' @ newline # ''if x'')
       = ''x = 1'' @ newline # ''def f():''"
proof (intro conjI)
  let ?s = "''x = 1'' @ newline # ''def f():'' @ newline # ''if x''"
  have "?s = ''x = 1'' @ (newline # ''def'') @ '' f():'' @ newline # ''if x''" by simp
  moreover have "newline # ''def'' \<in> set HUMAN_EVAL_EOF_STRINGS"
    by (simp add: HUMAN_EVAL_EOF_STRINGS_def)
  ultimately have h: "\<exists>m \<in> set HUMAN_EVAL_EOF_STRINGS. \<exists>before after. ?s = before @ m @ after"
    by blast
  show "\<exists>m rest. m \<in> set HUMAN_EVAL_EOF_STRINGS
      \<and> ?s = remove_last_block ?s @ m @ rest
      \<and> (\<forall>m' \<in> set HUMAN_EVAL_EOF_STRINGS. \<forall>before after.
            ?s = before @ m' @ after \<longrightarrow> length before \<le> length (remove_last_block ?s))"
    by (rule remove_last_block_trims_last_marker [OF h])
  show "remove_last_block ?s = ''x = 1'' @ newline # ''def f():''"
    by (simp add: remove_last_block_def re_split_def match_at_def HUMAN_EVAL_EOF_STRINGS_def
        newline_def)
qed

text \<open>
  C8. For a string that contains no marker of \<open>HUMAN_EVAL_EOF_STRINGS\<close>,
  \<open>remove_last_block\<close> returns the empty string.
\<close>

theorem remove_last_block_no_marker:
  assumes "\<forall>m \<in> set HUMAN_EVAL_EOF_STRINGS. \<not> (\<exists>before after. s = before @ m @ after)"
  shows "remove_last_block s = []"
proof -
  have "no_eof s" using assms by (auto simp: no_eof_def sublist_def)
  then have "re_split s = [s]"
    by (simp add: re_split_def re_split_scan_no_eof)
  then show ?thesis by (simp add: remove_last_block_def)
qed

theorem remove_last_block_no_marker_witness:
  "remove_last_block ''return 1'' = []"
proof -
  have h: "\<forall>m \<in> set HUMAN_EVAL_EOF_STRINGS. \<not> (\<exists>before after. ''return 1'' = before @ m @ after)"
  proof (intro ballI notI)
    fix m
    assume m: "m \<in> set HUMAN_EVAL_EOF_STRINGS"
      and "\<exists>before after. ''return 1'' = before @ m @ after"
    then obtain before after where "''return 1'' = before @ m @ after" by blast
    then have "set m \<subseteq> set ''return 1''"
      by (metis set_append sup.cobounded1 sup.cobounded2 subset_trans)
    moreover have "newline \<in> set m" using eof_string_shape [OF m] by auto
    ultimately show False by (auto simp: newline_def)
  qed
  show ?thesis by (rule remove_last_block_no_marker [OF h])
qed

section \<open>Properties of the ODEX loader\<close>

lemma column_total:
  "\<forall>r \<in> set rows. r f \<noteq> None \<Longrightarrow> column f rows = Inr (map (\<lambda>r. the (r f)) rows)"
  by (induction rows) auto

lemma filter_not_in_total:
  "\<forall>r \<in> set rows. r f \<noteq> None \<Longrightarrow>
   filter_not_in f vals rows = Inr (filter (\<lambda>r. the (r f) \<notin> set vals) rows)"
  by (induction rows) auto

text \<open>
  C10. When both downloaded splits have their columns, the loader returns the ODEX test
  rows, in order, whose intent equals the nl of no row of the CoNaLa training split; so
  no returned row has an intent that occurs among the training split's nl values.
\<close>

theorem load_odex_test_dataset_no_leak:
  assumes "\<forall>c \<in> set conala_train. c ''nl'' \<noteq> None"
    and "\<forall>e \<in> set odex_test. e ''intent'' \<noteq> None"
  shows "\<exists>ds. load_odex_test_dataset odex_test conala_train = Inr ds
      \<and> ds = filter (\<lambda>e. \<forall>c \<in> set conala_train. c ''nl'' \<noteq> e ''intent'') odex_test
      \<and> (\<forall>e \<in> set ds. \<forall>c \<in> set conala_train. c ''nl'' \<noteq> e ''intent'')"
proof -
  let ?nl = "map (\<lambda>r. the (r ''nl'')) conala_train"
  have same: "(the (e ''intent'') \<notin> set ?nl) = (\<forall>c \<in> set conala_train. c ''nl'' \<noteq> e ''intent'')"
    if mem: "e \<in> set odex_test" for e
  proof -
    obtain v where v: "e ''intent'' = Some v"
      using assms(2) mem by auto
    have "(v \<in> set ?nl) = (\<exists>c \<in> set conala_train. c ''nl'' = Some v)"
      using assms(1) by force
    then show ?thesis using v by auto
  qed
  have "load_odex_test_dataset odex_test conala_train
      = Inr (filter (\<lambda>e. the (e ''intent'') \<notin> set ?nl) odex_test)"
    using assms by (simp add: load_odex_test_dataset_def column_total filter_not_in_total)
  also have "filter (\<lambda>e. the (e ''intent'') \<notin> set ?nl) odex_test
      = filter (\<lambda>e. \<forall>c \<in> set conala_train. c ''nl'' \<noteq> e ''intent'') odex_test"
    using same by (intro filter_cong) simp_all
  finally show ?thesis by simp
qed

theorem load_odex_test_dataset_witness:
  "load_odex_test_dataset
     [[''intent'' \<mapsto> PStr ''sort a list''], [''intent'' \<mapsto> PStr ''open a file'']]
     [[''nl'' \<mapsto> PStr ''sort a list'']]
   = Inr [[''intent'' \<mapsto> PStr ''open a file'']]"
proof -
  let ?odex = "[[''intent'' \<mapsto> PStr ''sort a list''], [''intent'' \<mapsto> PStr ''open a file'']] :: row list"
  let ?conala = "[[''nl'' \<mapsto> PStr ''sort a list'']] :: row list"
  have "\<forall>c \<in> set ?conala. c ''nl'' \<noteq> None" by simp
  moreover have "\<forall>e \<in> set ?odex. e ''intent'' \<noteq> None" by simp
  ultimately show ?thesis
    using load_odex_test_dataset_no_leak [of ?conala ?odex] by simp
qed

section \<open>Properties of the dataset configuration\<close>

text \<open>
  C6. \<open>main\<close> takes the dataset name from the last component of the dataset path and sets
  from it the generation limit and the two field names: 128 with nl and cmd for conala,
  512 with prompt and completion for codealpaca, 1024 with question and solutions for
  every other name.
\<close>

theorem main_configure_by_dataset_name:
  "dataset_name (main_configure args) = last (split_on CHR ''/'' (dataset_name_or_path args))
   \<and> (dataset_name (main_configure args) = ''conala'' \<longrightarrow>
        max_new_tokens (main_configure args) = 128
        \<and> instruction_field (main_configure args) = ''nl''
        \<and> reference_field (main_configure args) = ''cmd'')
   \<and> (dataset_name (main_configure args) = ''codealpaca'' \<longrightarrow>
        max_new_tokens (main_configure args) = 512
        \<and> instruction_field (main_configure args) = ''prompt''
        \<and> reference_field (main_configure args) = ''completion'')
   \<and> (dataset_name (main_configure args) \<noteq> ''conala''
        \<and> dataset_name (main_configure args) \<noteq> ''codealpaca'' \<longrightarrow>
        max_new_tokens (main_configure args) = 1024
        \<and> instruction_field (main_configure args) = ''question''
        \<and> reference_field (main_configure args) = ''solutions'')"
  by (simp add: main_configure_def Let_def)

theorem main_configure_by_dataset_name_witness:
  "dataset_name (main_configure example_args) = ''conala''
   \<and> max_new_tokens (main_configure example_args) = 128
   \<and> instruction_field (main_configure example_args) = ''nl''
   \<and> reference_field (main_configure example_args) = ''cmd''
   \<and> max_new_tokens (main_configure (example_args\<lparr>dataset_name_or_path := ''codealpaca''\<rparr>)) = 512
   \<and> max_new_tokens (main_configure example_apps_args) = 1024"
proof -
  have n: "last (split_on CHR ''/'' (dataset_name_or_path example_args)) = ''conala''"
    by (simp add: example_args_def)
  have n2: "last (split_on CHR ''/''
      (dataset_name_or_path (example_args\<lparr>dataset_name_or_path := ''codealpaca''\<rparr>))) = ''codealpaca''"
    by simp
  have n3: "last (split_on CHR ''/'' (dataset_name_or_path example_apps_args)) = ''apps''"
    by (simp add: example_apps_args_def)
  show ?thesis
    using main_configure_by_dataset_name [of example_args] n
      main_configure_by_dataset_name [of "example_args\<lparr>dataset_name_or_path := ''codealpaca''\<rparr>"] n2
      main_configure_by_dataset_name [of example_apps_args] n3
    by simp
qed

section \<open>Properties of the metric computation\<close>

lemma compute_metrics_scores:
  "dataset_name args \<noteq> ''apps'' \<Longrightarrow>
   column (reference_field args) (map columns dataset) = Inr references \<Longrightarrow>
   compute_metrics lib args responses dataset =
     Inr [(''em'', JMetric (em_compute lib responses references)),
          (''chrf'', JMetric (chrf_compute lib responses (map (\<lambda>ref. [ref]) references) None)),
          (''chrf2'', JMetric (chrf_compute lib responses (map (\<lambda>ref. [ref]) references) (Some 2)))]"
  by (simp add: compute_metrics_def Let_def)

text \<open>
  C3. For the apps dataset \<open>compute_metrics\<close> returns the empty dictionary whatever the
  responses and the dataset are: no evaluation is run and no score is returned.
\<close>

theorem compute_metrics_apps_empty:
  "compute_metrics lib (args\<lparr>dataset_name := ''apps''\<rparr>) responses dataset = Inr []"
  by (simp add: compute_metrics_def)

section \<open>Properties of the prompt construction\<close>

lemma chat_docs_loop_total:
  "\<forall>doc \<in> set docs. metadata doc ''code'' = Some (code doc) \<Longrightarrow>
   chat_docs_loop chat_docs docs =
     Inr (chat_docs @ concat (map (\<lambda>doc. [\<lparr>role = ''user'', content = page_content doc\<rparr>,
                                          \<lparr>role = ''assistant'', content = code doc\<rparr>]) docs))"
  by (induction docs arbitrary: chat_docs) (auto simp: getitem_def)

lemma chat_docs_loop_error:
  "chat_docs_loop chat_docs docs = Inl e \<Longrightarrow> e = KeyError"
  by (induction docs arbitrary: chat_docs) (auto simp: getitem_def split: option.splits)

lemma length_concat_pairs: "length (concat (map (\<lambda>x. [f x, g x]) xs)) = 2 * length xs"
  by (induction xs) auto

lemma knowledge_base_of_total:
  "\<forall>s \<in> set train. columns s (instruction_field args) = Some (ins s)
       \<and> columns s (reference_field args) = Some (ref s) \<Longrightarrow>
   knowledge_base_of args train =
     Inr (map (\<lambda>s. \<lparr>page_content = ins s, metadata = [''code'' \<mapsto> ref s]\<rparr>) train)"
  by (induction train) (auto simp: getitem_def)

text \<open>
  C4. With RAG enabled, a store, the instruction column present and \<open>rag_top_k\<close>
  documents retrieved, each with its code in the metadata, \<open>prepare_input\<close> returns, for
  each retrieved document in order, a user message with its page content and an assistant
  message with its code, \<open>2 * rag_top_k\<close> messages in all, followed by the sample's
  messages without the last one. With RAG disabled it returns exactly the sample's
  messages without the last one. The store \<open>main\<close> hands over is built from one document
  per row of the training split, the instruction as page content and the reference as
  code.
\<close>

theorem prepare_input_chat:
  "(use_rag args
      \<and> columns sample (instruction_field args) = Some query
      \<and> int (length (similarity_search lib store query (rag_top_k args))) = rag_top_k args
      \<and> (\<forall>doc \<in> set (similarity_search lib store query (rag_top_k args)).
            metadata doc ''code'' = Some (code doc))
    \<longrightarrow> (\<exists>chat_docs.
           prepare_input lib sample (Some store) args = Inr (chat_docs @ butlast (messages sample))
         \<and> chat_docs = concat (map (\<lambda>doc. [\<lparr>role = ''user'', content = page_content doc\<rparr>,
                                             \<lparr>role = ''assistant'', content = code doc\<rparr>])
                                 (similarity_search lib store query (rag_top_k args)))
         \<and> int (length chat_docs) = 2 * rag_top_k args))
   \<and> (\<not> use_rag args
    \<longrightarrow> prepare_input lib sample knowledge_base_vectors args = Inr (butlast (messages sample)))
   \<and> (\<not> use_icl args \<and> use_rag args
      \<and> (\<forall>s \<in> set train. columns s (instruction_field args) = Some (ins s)
                           \<and> columns s (reference_field args) = Some (ref s))
    \<longrightarrow> main_prepare lib args train test =
          Inr (test, Some (from_documents lib
                 (map (\<lambda>s. \<lparr>page_content = ins s, metadata = [''code'' \<mapsto> ref s]\<rparr>) train))))"
proof (intro conjI impI)
  assume h: "use_rag args
      \<and> columns sample (instruction_field args) = Some query
      \<and> int (length (similarity_search lib store query (rag_top_k args))) = rag_top_k args
      \<and> (\<forall>doc \<in> set (similarity_search lib store query (rag_top_k args)).
            metadata doc ''code'' = Some (code doc))"
  let ?docs = "similarity_search lib store query (rag_top_k args)"
  let ?chat = "concat (map (\<lambda>doc. [\<lparr>role = ''user'', content = page_content doc\<rparr>,
                                     \<lparr>role = ''assistant'', content = code doc\<rparr>]) ?docs)"
  have "chat_docs_loop [] ?docs = Inr ?chat"
    using h chat_docs_loop_total [of ?docs code "[]"] by simp
  then have "prepare_input lib sample (Some store) args = Inr (?chat @ butlast (messages sample))"
    using h by (simp add: prepare_input_def getitem_def)
  moreover have "int (length ?chat) = 2 * rag_top_k args"
    using h by (simp only: length_concat_pairs) simp
  ultimately show "\<exists>chat_docs.
           prepare_input lib sample (Some store) args = Inr (chat_docs @ butlast (messages sample))
         \<and> chat_docs = ?chat \<and> int (length chat_docs) = 2 * rag_top_k args"
    by blast
next
  assume "\<not> use_rag args"
  then show "prepare_input lib sample knowledge_base_vectors args = Inr (butlast (messages sample))"
    by (simp add: prepare_input_def)
next
  assume h: "\<not> use_icl args \<and> use_rag args
      \<and> (\<forall>s \<in> set train. columns s (instruction_field args) = Some (ins s)
                           \<and> columns s (reference_field args) = Some (ref s))"
  then have "knowledge_base_of args train =
     Inr (map (\<lambda>s. \<lparr>page_content = ins s, metadata = [''code'' \<mapsto> ref s]\<rparr>) train)"
    using knowledge_base_of_total [of train args ins ref] by blast
  then show "main_prepare lib args train test =
          Inr (test, Some (from_documents lib
                 (map (\<lambda>s. \<lparr>page_content = ins s, metadata = [''code'' \<mapsto> ref s]\<rparr>) train)))"
    using h by (simp add: main_prepare_def)
qed

theorem prepare_input_chat_witness:
  "prepare_input example_lib example_sample (Some example_store)
       ((main_configure example_args)\<lparr>use_rag := True\<rparr>)
     = Inr [\<lparr>role = ''user'', content = PStr ''sort xs''\<rparr>,
            \<lparr>role = ''assistant'', content = PStr ''xs.sort()''\<rparr>,
            \<lparr>role = ''user'', content = PStr ''reverse xs''\<rparr>]
   \<and> prepare_input example_lib example_sample None (main_configure example_args)
     = Inr [\<lparr>role = ''user'', content = PStr ''reverse xs''\<rparr>]
   \<and> main_prepare example_lib ((main_configure example_args)\<lparr>use_rag := True\<rparr>)
        example_train [example_sample]
     = Inr ([example_sample], Some example_store)"
proof -
  let ?rag = "(main_configure example_args)\<lparr>use_rag := True\<rparr>"
  let ?plain = "main_configure example_args"
  let ?code = "\<lambda>doc. the (metadata doc ''code'')"
  let ?ins = "\<lambda>s. the (columns s ''nl'')"
  let ?ref = "\<lambda>s. the (columns s ''cmd'')"
  note rag = prepare_input_chat [where args = ?rag and sample = example_sample
      and query = "PStr ''reverse xs''" and lib = example_lib and store = example_store
      and code = ?code and train = example_train and ins = ?ins and ref = ?ref
      and test = "[example_sample]"]
  note plain = prepare_input_chat [where args = ?plain and sample = example_sample
      and lib = example_lib and knowledge_base_vectors = None]
  have h1: "use_rag ?rag
      \<and> columns example_sample (instruction_field ?rag) = Some (PStr ''reverse xs'')
      \<and> int (length (similarity_search example_lib example_store (PStr ''reverse xs'')
                        (rag_top_k ?rag))) = rag_top_k ?rag
      \<and> (\<forall>doc \<in> set (similarity_search example_lib example_store (PStr ''reverse xs'')
                          (rag_top_k ?rag)).
            metadata doc ''code'' = Some (?code doc))"
    by (simp add: example_args_def example_lib_def example_train_def example_sample_def
        example_store_def main_configure_def Let_def)
  have h2: "\<not> use_rag ?plain"
    by (simp add: example_args_def example_lib_def example_train_def example_sample_def
        example_store_def main_configure_def Let_def)
  have h3: "\<not> use_icl ?rag \<and> use_rag ?rag
      \<and> (\<forall>s \<in> set example_train. columns s (instruction_field ?rag) = Some (?ins s)
                           \<and> columns s (reference_field ?rag) = Some (?ref s))"
    by (simp add: example_args_def example_lib_def example_train_def example_sample_def
        example_store_def main_configure_def Let_def)
  have r1: "prepare_input example_lib example_sample (Some example_store) ?rag
     = Inr [\<lparr>role = ''user'', content = PStr ''sort xs''\<rparr>,
            \<lparr>role = ''assistant'', content = PStr ''xs.sort()''\<rparr>,
            \<lparr>role = ''user'', content = PStr ''reverse xs''\<rparr>]"
    using rag [THEN conjunct1, THEN mp, OF h1] by (simp add: example_args_def example_lib_def example_train_def example_sample_def
        example_store_def main_configure_def Let_def)
  have r2: "prepare_input example_lib example_sample None ?plain
     = Inr [\<lparr>role = ''user'', content = PStr ''reverse xs''\<rparr>]"
    using plain [THEN conjunct2, THEN conjunct1, THEN mp, OF h2] by (simp add: example_args_def example_lib_def example_train_def example_sample_def
        example_store_def main_configure_def Let_def)
  have r3: "main_prepare example_lib ?rag example_train [example_sample]
     = Inr ([example_sample], Some example_store)"
    using rag [THEN conjunct2, THEN conjunct2, THEN mp, OF h3] by (simp add: example_args_def example_lib_def example_train_def example_sample_def
        example_store_def main_configure_def Let_def)
  show ?thesis using r1 r2 r3 by blast
qed

section \<open>Properties of the in-context examples\<close>

lemma icl_reference_apps:
  "dataset_name args = ''apps'' \<Longrightarrow> columns e (reference_field args) = Some (PStr text) \<Longrightarrow>
   json_loads lib text = Some (PList (x # rest)) \<Longrightarrow> icl_reference lib args e = Inr x"
  by (simp add: icl_reference_def getitem_def)

lemma icl_reference_verbatim:
  "dataset_name args \<noteq> ''apps'' \<Longrightarrow> columns e (reference_field args) = Some v \<Longrightarrow>
   icl_reference lib args e = Inr v"
  by (simp add: icl_reference_def getitem_def)

lemma chat_icl_loop_total:
  "\<forall>e \<in> set examples. columns e (instruction_field args) = Some (ins e)
       \<and> icl_reference lib args e = Inr (ref e) \<Longrightarrow>
   chat_icl_loop lib args chat_icl examples =
     Inr (chat_icl @ concat (map (\<lambda>e. [\<lparr>role = ''user'', content = ins e\<rparr>,
                                        \<lparr>role = ''assistant'', content = ref e\<rparr>]) examples))"
  by (induction examples arbitrary: chat_icl) (auto simp: getitem_def)

text \<open>
  C5. With ICL enabled, \<open>num_icl_examples\<close> not negative and not more than the rows of
  the shuffled training split, and the columns present, \<open>main\<close> builds one list of
  \<open>2 * num_icl_examples\<close> messages, a user and an assistant message for each of the
  first \<open>num_icl_examples\<close> rows of the training split shuffled with \<open>icl_seed\<close>; the
  assistant content is the first element of the JSON list in the reference column for
  the apps dataset and the reference column itself otherwise; and every test sample gets
  this same list in front of its messages.
\<close>

theorem main_prepare_icl:
  "use_icl args \<and> 0 \<le> num_icl_examples args
     \<and> nat (num_icl_examples args) \<le> length (shuffle lib (icl_seed args) train)
     \<and> (\<forall>e \<in> set (take (nat (num_icl_examples args)) (shuffle lib (icl_seed args) train)).
           columns e (instruction_field args) = Some (ins e)
           \<and> (if dataset_name args = ''apps''
              then \<exists>text rest. columns e (reference_field args) = Some (PStr text)
                     \<and> json_loads lib text = Some (PList (ref e # rest))
              else columns e (reference_field args) = Some (ref e)))
   \<longrightarrow> (\<exists>chat_icl.
          chat_icl = concat (map (\<lambda>e. [\<lparr>role = ''user'', content = ins e\<rparr>,
                                        \<lparr>role = ''assistant'', content = ref e\<rparr>])
                       (take (nat (num_icl_examples args)) (shuffle lib (icl_seed args) train)))
        \<and> int (length chat_icl) = 2 * num_icl_examples args
        \<and> main_prepare lib args train test =
            Inr (map (\<lambda>s. s\<lparr>messages := chat_icl @ messages s\<rparr>) test, None))"
proof (intro impI)
  let ?n = "nat (num_icl_examples args)"
  let ?examples = "take ?n (shuffle lib (icl_seed args) train)"
  let ?chat = "concat (map (\<lambda>e. [\<lparr>role = ''user'', content = ins e\<rparr>,
                                   \<lparr>role = ''assistant'', content = ref e\<rparr>]) ?examples)"
  assume h: "use_icl args \<and> 0 \<le> num_icl_examples args
     \<and> ?n \<le> length (shuffle lib (icl_seed args) train)
     \<and> (\<forall>e \<in> set ?examples.
           columns e (instruction_field args) = Some (ins e)
           \<and> (if dataset_name args = ''apps''
              then \<exists>text rest. columns e (reference_field args) = Some (PStr text)
                     \<and> json_loads lib text = Some (PList (ref e # rest))
              else columns e (reference_field args) = Some (ref e)))"
  have sel: "select_range (num_icl_examples args) (shuffle lib (icl_seed args) train) = Inr ?examples"
    using h by (auto simp: select_range_def)
  have each: "\<forall>e \<in> set ?examples. columns e (instruction_field args) = Some (ins e)
       \<and> icl_reference lib args e = Inr (ref e)"
  proof
    fix e
    assume e: "e \<in> set ?examples"
    then have i: "columns e (instruction_field args) = Some (ins e)" using h by blast
    have "icl_reference lib args e = Inr (ref e)"
    proof (cases "dataset_name args = ''apps''")
      case True
      then obtain encoded rest where "columns e (reference_field args) = Some (PStr encoded)"
        "json_loads lib encoded = Some (PList (ref e # rest))"
        using h e by auto
      then show ?thesis using True by (rule_tac icl_reference_apps)
    next
      case False
      then have "columns e (reference_field args) = Some (ref e)" using h e by auto
      then show ?thesis using False by (rule_tac icl_reference_verbatim)
    qed
    then show "columns e (instruction_field args) = Some (ins e)
       \<and> icl_reference lib args e = Inr (ref e)"
      using i by simp
  qed
  have loop: "chat_icl_loop lib args [] ?examples = Inr ?chat"
    using chat_icl_loop_total [OF each, of "[]"] by simp
  have m: "main_prepare lib args train test =
      Inr (map (\<lambda>s. s\<lparr>messages := ?chat @ messages s\<rparr>) test, None)"
    using h by (simp add: main_prepare_def sel loop add_icl_prompt_def)
  have "length ?examples = ?n" using h by simp
  then have l: "int (length ?chat) = 2 * num_icl_examples args"
    using h by (simp only: length_concat_pairs) simp
  show "\<exists>chat_icl. chat_icl = ?chat
        \<and> int (length chat_icl) = 2 * num_icl_examples args
        \<and> main_prepare lib args train test =
            Inr (map (\<lambda>s. s\<lparr>messages := chat_icl @ messages s\<rparr>) test, None)"
    using m l by blast
qed

theorem main_prepare_icl_witness:
  "main_prepare example_lib ((main_configure example_args)\<lparr>use_icl := True\<rparr>)
       example_train [example_sample]
     = Inr ([example_sample\<lparr>messages :=
               [\<lparr>role = ''user'', content = PStr ''clear xs''\<rparr>,
                \<lparr>role = ''assistant'', content = PStr ''xs.clear()''\<rparr>,
                \<lparr>role = ''user'', content = PStr ''sort xs''\<rparr>,
                \<lparr>role = ''assistant'', content = PStr ''xs.sort()''\<rparr>]
               @ messages example_sample\<rparr>], None)
   \<and> main_prepare example_lib (main_configure example_apps_args)
       example_apps_train [example_sample]
     = Inr ([example_sample\<lparr>messages :=
               [\<lparr>role = ''user'', content = PStr ''give one''\<rparr>,
                \<lparr>role = ''assistant'', content = PStr ''return 1''\<rparr>]
               @ messages example_sample\<rparr>], None)"
proof -
  let ?icl = "(main_configure example_args)\<lparr>use_icl := True\<rparr>"
  let ?apps = "main_configure example_apps_args"
  note conala = main_prepare_icl [where args = ?icl and lib = example_lib
      and train = example_train and ins = "\<lambda>e. the (columns e ''nl'')"
      and ref = "\<lambda>e. the (columns e ''cmd'')" and test = "[example_sample]"]
  note apps = main_prepare_icl [where args = ?apps and lib = example_lib
      and train = example_apps_train and ins = "\<lambda>e. the (columns e ''question'')"
      and ref = "\<lambda>e. PStr ''return 1''" and test = "[example_sample]"]
  have h1: "use_icl ?icl \<and> 0 \<le> num_icl_examples ?icl
     \<and> nat (num_icl_examples ?icl) \<le> length (shuffle example_lib (icl_seed ?icl) example_train)
     \<and> (\<forall>e \<in> set (take (nat (num_icl_examples ?icl))
                      (shuffle example_lib (icl_seed ?icl) example_train)).
           columns e (instruction_field ?icl) = Some (the (columns e ''nl''))
           \<and> (if dataset_name ?icl = ''apps''
              then \<exists>text rest. columns e (reference_field ?icl) = Some (PStr text)
                     \<and> json_loads example_lib text = Some (PList (the (columns e ''cmd'') # rest))
              else columns e (reference_field ?icl) = Some (the (columns e ''cmd''))))"
    by (simp add: example_args_def example_lib_def example_train_def example_sample_def
        example_apps_args_def example_apps_train_def main_configure_def Let_def)
  have h2: "use_icl ?apps \<and> 0 \<le> num_icl_examples ?apps
     \<and> nat (num_icl_examples ?apps) \<le> length (shuffle example_lib (icl_seed ?apps) example_apps_train)
     \<and> (\<forall>e \<in> set (take (nat (num_icl_examples ?apps))
                      (shuffle example_lib (icl_seed ?apps) example_apps_train)).
           columns e (instruction_field ?apps) = Some (the (columns e ''question''))
           \<and> (if dataset_name ?apps = ''apps''
              then \<exists>text rest. columns e (reference_field ?apps) = Some (PStr text)
                     \<and> json_loads example_lib text = Some (PList (PStr ''return 1'' # rest))
              else columns e (reference_field ?apps) = Some (PStr ''return 1'')))"
    by (simp add: example_args_def example_lib_def example_train_def example_sample_def
        example_apps_args_def example_apps_train_def main_configure_def Let_def)
  have r1: "main_prepare example_lib ?icl example_train [example_sample]
     = Inr ([example_sample\<lparr>messages :=
               [\<lparr>role = ''user'', content = PStr ''clear xs''\<rparr>,
                \<lparr>role = ''assistant'', content = PStr ''xs.clear()''\<rparr>,
                \<lparr>role = ''user'', content = PStr ''sort xs''\<rparr>,
                \<lparr>role = ''assistant'', content = PStr ''xs.sort()''\<rparr>]
               @ messages example_sample\<rparr>], None)"
    using conala [THEN mp, OF h1] by (simp add: example_args_def example_lib_def example_train_def example_sample_def
        example_apps_args_def example_apps_train_def main_configure_def Let_def)
  have r2: "main_prepare example_lib ?apps example_apps_train [example_sample]
     = Inr ([example_sample\<lparr>messages :=
               [\<lparr>role = ''user'', content = PStr ''give one''\<rparr>,
                \<lparr>role = ''assistant'', content = PStr ''return 1''\<rparr>]
               @ messages example_sample\<rparr>], None)"
    using apps [THEN mp, OF h2] by (simp add: example_args_def example_lib_def example_train_def example_sample_def
        example_apps_args_def example_apps_train_def main_configure_def Let_def)
  show ?thesis using r1 r2 by blast
qed

section \<open>Properties of the knowledge base handed to prepare_input\<close>

text \<open>
  C9. With RAG set and the instruction column present, \<open>prepare_input\<close> on a store that
  is \<open>None\<close> raises \<open>AttributeError\<close>. \<open>main\<close> leaves the store \<open>None\<close> whenever ICL
  is set. When ICL and RAG are not both set, \<open>prepare_input\<close> on the store of \<open>main\<close>
  never raises \<open>AttributeError\<close>; when both are set and the dataset is not empty,
  generation ends with \<open>AttributeError\<close>.
\<close>

theorem knowledge_base_None_dereference:
  "(use_rag args \<and> columns sample (instruction_field args) \<noteq> None
      \<longrightarrow> prepare_input lib sample None args = Inl AttributeError)
   \<and> (use_icl args \<and> main_prepare lib args train test = Inr (dataset, kbv) \<longrightarrow> kbv = None)
   \<and> (\<not> (use_icl args \<and> use_rag args) \<and> main_prepare lib args train test = Inr (dataset, kbv)
      \<longrightarrow> prepare_input lib sample kbv args \<noteq> Inl AttributeError)
   \<and> (use_icl args \<and> use_rag args \<and> main_prepare lib args train test = Inr (dataset, kbv)
        \<and> dataset \<noteq> [] \<and> (\<forall>s \<in> set dataset. columns s (instruction_field args) \<noteq> None)
      \<longrightarrow> generate lib args dataset kbv = Inl AttributeError)"
proof (intro conjI impI)
  assume "use_rag args \<and> columns sample (instruction_field args) \<noteq> None"
  then show "prepare_input lib sample None args = Inl AttributeError"
    by (auto simp: prepare_input_def getitem_def)
next
  assume "use_icl args \<and> main_prepare lib args train test = Inr (dataset, kbv)"
  then show "kbv = None"
    by (auto simp: main_prepare_def split: sum.splits)
next
  assume h: "\<not> (use_icl args \<and> use_rag args)
    \<and> main_prepare lib args train test = Inr (dataset, kbv)"
  show "prepare_input lib sample kbv args \<noteq> Inl AttributeError"
  proof (cases "use_rag args")
    case False
    then show ?thesis by (simp add: prepare_input_def)
  next
    case True
    then have "\<not> use_icl args" using h by blast
    then obtain store where "kbv = Some store"
      using h True by (auto simp: main_prepare_def split: sum.splits)
    then show ?thesis
      using chat_docs_loop_error
      by (auto simp: prepare_input_def getitem_def split: option.splits sum.splits)
  qed
next
  assume h: "use_icl args \<and> use_rag args \<and> main_prepare lib args train test = Inr (dataset, kbv)
        \<and> dataset \<noteq> [] \<and> (\<forall>s \<in> set dataset. columns s (instruction_field args) \<noteq> None)"
  then have k: "kbv = None"
    by (auto simp: main_prepare_def split: sum.splits)
  obtain s rest where d: "dataset = s # rest" using h by (cases dataset) auto
  then have "columns s (instruction_field args) \<noteq> None" using h by simp
  then have "prepare_input lib s None args = Inl AttributeError"
    using h by (auto simp: prepare_input_def getitem_def)
  then show "generate lib args dataset kbv = Inl AttributeError"
    by (simp add: d k)
qed

theorem knowledge_base_None_dereference_witness:
  "prepare_input example_lib example_sample None ((main_configure example_args)\<lparr>use_rag := True\<rparr>)
     = Inl AttributeError
   \<and> main_prepare example_lib ((main_configure example_args)\<lparr>use_icl := True, use_rag := True\<rparr>)
        example_train [example_sample]
     = Inr (example_icl_dataset, None)
   \<and> prepare_input example_lib example_sample (Some example_store)
        ((main_configure example_args)\<lparr>use_rag := True\<rparr>) \<noteq> Inl AttributeError
   \<and> generate example_lib ((main_configure example_args)\<lparr>use_icl := True, use_rag := True\<rparr>)
        example_icl_dataset None
     = Inl AttributeError"
proof -
  let ?rag = "(main_configure example_args)\<lparr>use_rag := True\<rparr>"
  let ?both = "(main_configure example_args)\<lparr>use_icl := True, use_rag := True\<rparr>"
  have p: "main_prepare example_lib ?both example_train [example_sample]
      = Inr (example_icl_dataset, None)"
    by (simp add: example_args_def example_lib_def example_train_def example_sample_def
        example_store_def main_configure_def Let_def example_icl_dataset_def main_prepare_def select_range_def
        icl_reference_def getitem_def add_icl_prompt_def)
  have q: "main_prepare example_lib ?rag example_train [example_sample]
      = Inr ([example_sample], Some example_store)"
    by (simp add: example_args_def example_lib_def example_train_def example_sample_def
        example_store_def main_configure_def Let_def main_prepare_def getitem_def)
  note rag = knowledge_base_None_dereference [where args = ?rag and sample = example_sample
      and lib = example_lib and train = example_train and test = "[example_sample]"
      and dataset = "[example_sample]" and kbv = "Some example_store"]
  note both = knowledge_base_None_dereference [where args = ?both and sample = example_sample
      and lib = example_lib and train = example_train and test = "[example_sample]"
      and dataset = example_icl_dataset and kbv = None]
  have h1: "use_rag ?rag \<and> columns example_sample (instruction_field ?rag) \<noteq> None"
    by (simp add: example_args_def example_lib_def example_train_def example_sample_def
        example_store_def main_configure_def Let_def)
  have h3: "\<not> (use_icl ?rag \<and> use_rag ?rag)
      \<and> main_prepare example_lib ?rag example_train [example_sample]
          = Inr ([example_sample], Some example_store)"
    using q by (simp add: example_args_def example_lib_def example_train_def example_sample_def
        example_store_def main_configure_def Let_def)
  have h4: "use_icl ?both \<and> use_rag ?both
      \<and> main_prepare example_lib ?both example_train [example_sample]
          = Inr (example_icl_dataset, None)
      \<and> example_icl_dataset \<noteq> []
      \<and> (\<forall>s \<in> set example_icl_dataset. columns s (instruction_field ?both) \<noteq> None)"
    using p by (simp add: example_args_def example_lib_def example_train_def example_sample_def
        example_store_def main_configure_def Let_def example_icl_dataset_def)
  have r1: "prepare_input example_lib example_sample None ?rag = Inl AttributeError"
    by (rule rag [THEN conjunct1, THEN mp, OF h1])
  have r3: "prepare_input example_lib example_sample (Some example_store) ?rag \<noteq> Inl AttributeError"
    by (rule rag [THEN conjunct2, THEN conjunct2, THEN conjunct1, THEN mp, OF h3])
  have r4: "generate example_lib ?both example_icl_dataset None = Inl AttributeError"
    by (rule both [THEN conjunct2, THEN conjunct2, THEN conjunct2, THEN mp, OF h4])
  show ?thesis using r1 p r3 r4 by blast
qed

section \<open>Properties of the result files\<close>

lemma write_responses_eq:
  "write_responses lib fout responses =
     fout @ concat (map (\<lambda>response. json_dumps lib (JObj [(''response'', JStr response)]) @ [newline])
                     responses)"
  by (induction responses arbitrary: fout) auto

lemma split_on_line: "sep \<notin> set s \<Longrightarrow> split_on sep (s @ sep # rest) = s # split_on sep rest"
proof (induction s)
  case Nil
  then show ?case by simp
next
  case (Cons c s)
  then show ?case by auto
qed

lemma split_on_lines:
  "\<forall>x \<in> set xs. sep \<notin> set (f x) \<Longrightarrow>
   split_on sep (concat (map (\<lambda>x. f x @ [sep]) xs)) = map f xs @ [[]]"
  by (induction xs) (auto simp: split_on_line)

lemma map_of_main_metrics:
  "map_of (main_metrics metrics usage) =
     (map_of metrics)
       (''init_gpu_memory'' \<mapsto> JStr (init_gpu_memory usage @ '' MB''),
        ''peak_gpu_memory'' \<mapsto> JStr (peak_gpu_memory usage @ '' MB''),
        ''total_execution_time'' \<mapsto> JStr (total_execution_time usage @ '' seconds''))"
  by (simp add: main_metrics_def update_conv')

lemma paths_differ: "metrics_path args \<noteq> responses_path args"
  by (simp add: metrics_path_def responses_path_def)

lemma digit_char_no_newline: "k < 10 \<Longrightarrow> digit_char k \<noteq> newline"
proof -
  assume "k < 10"
  then have "k \<in> {0, 1, 2, 3, 4, 5, 6, 7, 8, 9}" by auto
  then show ?thesis by (auto simp: digit_char_def newline_def)
qed

lemma str_nat_no_newline: "newline \<notin> set (str_nat n)"
proof (induction n rule: str_nat.induct)
  case (1 n)
  show ?case
  proof (cases "n < 10")
    case True
    then show ?thesis
      using digit_char_no_newline [of n] by (subst str_nat.simps) auto
  next
    case False
    then show ?thesis
      using 1 digit_char_no_newline [of "n mod 10"] by (subst str_nat.simps) auto
  qed
qed

lemma join_with_no_newline:
  "newline \<notin> set sep \<Longrightarrow> \<forall>x \<in> set xs. newline \<notin> set x \<Longrightarrow> newline \<notin> set (join_with sep xs)"
  by (induction sep xs rule: join_with.induct) auto

lemma quoted_no_newline: "newline \<notin> set (quoted s)"
  by (auto simp: quoted_def double_quote_def newline_def)

lemma example_dumps_no_newline: "newline \<notin> set (example_dumps v)"
proof (induction v)
  case (JStr s)
  then show ?case by (simp add: quoted_no_newline)
next
  case (JMetric n)
  then show ?case by (simp add: str_nat_no_newline)
next
  case (JObj items)
  have "\<forall>x \<in> set (map (\<lambda>item. quoted (fst item) @ '': '' @ example_dumps (snd item)) items).
          newline \<notin> set x"
  proof
    fix x
    assume "x \<in> set (map (\<lambda>item. quoted (fst item) @ '': '' @ example_dumps (snd item)) items)"
    then obtain item where i: "item \<in> set items"
      and x: "x = quoted (fst item) @ '': '' @ example_dumps (snd item)"
      by auto
    have "newline \<notin> set (example_dumps (snd item))"
      using JObj i by (cases item) auto
    then show "newline \<notin> set x"
      using quoted_no_newline by (simp add: x newline_def)
  qed
  moreover have "newline \<notin> set '', ''" by (simp add: newline_def)
  ultimately have "newline \<notin> set (join_with '', ''
      (map (\<lambda>item. quoted (fst item) @ '': '' @ example_dumps (snd item)) items))"
    by (intro join_with_no_newline)
  then show ?case by (simp add: newline_def)
qed

lemma main_write_files:
  "files (main_write lib args metrics responses usage fs) (responses_path args)
     = Some (concat (map (\<lambda>response.
                json_dumps lib (JObj [(''response'', JStr response)]) @ [newline]) responses))
   \<and> ((\<forall>v. newline \<notin> set (json_dumps lib v)) \<longrightarrow>
        split_on newline (the (files (main_write lib args metrics responses usage fs)
                                 (responses_path args)))
          = map (\<lambda>response. json_dumps lib (JObj [(''response'', JStr response)])) responses @ [[]])
   \<and> (\<exists>written.
         files (main_write lib args metrics responses usage fs) (metrics_path args)
           = Some (json_dumps lib (JObj written))
       \<and> map_of written =
           (map_of metrics)
             (''init_gpu_memory'' \<mapsto> JStr (init_gpu_memory usage @ '' MB''),
              ''peak_gpu_memory'' \<mapsto> JStr (peak_gpu_memory usage @ '' MB''),
              ''total_execution_time'' \<mapsto> JStr (total_execution_time usage @ '' seconds'')))
   \<and> metrics_path args \<noteq> responses_path args
   \<and> prefix (output_dir args @ ''/'') (metrics_path args)
   \<and> prefix (output_dir args @ ''/'') (responses_path args)
   \<and> (\<forall>path. peft_checkpoint_path args = Some path \<and> path \<noteq> []
         \<longrightarrow> output_dir args = path @ ''/results'')
   \<and> (peft_checkpoint_path args = None
         \<longrightarrow> output_dir args = ''runs/'' @ model_name args @ ''/results'')"
proof -
  let ?line = "\<lambda>response. json_dumps lib (JObj [(''response'', JStr response)])"
  let ?fs = "main_write lib args metrics responses usage fs"
  have r: "files ?fs (responses_path args) = Some (concat (map (\<lambda>response. ?line response @ [newline]) responses))"
    by (simp add: main_write_def Let_def write_responses_eq)
  have l: "split_on newline (the (files ?fs (responses_path args))) = map ?line responses @ [[]]"
    if "\<forall>v. newline \<notin> set (json_dumps lib v)"
    unfolding r option.sel using that by (intro split_on_lines) simp
  have m: "files ?fs (metrics_path args) = Some (json_dumps lib (JObj (main_metrics metrics usage)))"
    using paths_differ [of args] by (simp add: main_write_def Let_def)
  have p1: "prefix (output_dir args @ ''/'') (metrics_path args)"
    by (simp add: metrics_path_def)
  have p2: "prefix (output_dir args @ ''/'') (responses_path args)"
    by (simp add: responses_path_def)
  have o1: "\<forall>path. peft_checkpoint_path args = Some path \<and> path \<noteq> []
         \<longrightarrow> output_dir args = path @ ''/results''"
    by (simp add: output_dir_def)
  have o2: "peft_checkpoint_path args = None
         \<longrightarrow> output_dir args = ''runs/'' @ model_name args @ ''/results''"
    by (simp add: output_dir_def)
  show ?thesis
    using r l m map_of_main_metrics [of metrics usage] paths_differ [of args] p1 p2 o1 o2
    by blast
qed


lemma generate_in_order:
  "generate lib args dataset kbv = Inr responses \<Longrightarrow>
   list_all2 (\<lambda>sample response. \<exists>example.
                prepare_input lib sample kbv args = Inr example \<and> response = respond lib example)
     dataset responses"
proof (induction dataset arbitrary: responses)
  case Nil
  then show ?case by simp
next
  case (Cons sample dataset)
  then show ?case by (auto split: sum.splits)
qed

lemma main_success:
  "main lib argv train test usage fs = Inr fs' \<longleftrightarrow>
     (\<exists>dataset kbv responses metrics.
        main_prepare lib (main_configure argv) train test = Inr (dataset, kbv)
      \<and> generate lib (main_configure argv) dataset kbv = Inr responses
      \<and> compute_metrics lib (main_configure argv) responses dataset = Inr metrics
      \<and> fs' = main_write lib (main_configure argv) metrics responses usage fs)"
  by (auto simp: main_def Let_def split: sum.splits prod.splits)

lemma main_configure_keeps:
  "peft_checkpoint_path (main_configure argv) = peft_checkpoint_path argv
   \<and> model_name (main_configure argv) = last (split_on CHR ''/'' (model_name_or_path argv))"
  by (simp add: main_configure_def Let_def)

text \<open>
  C7. When preparation, generation and metric computation succeed, \<open>main\<close> returns, and
  whenever \<open>main\<close> returns it has written to the responses file, for each response that
  \<open>generate\<close> produced (one per sample of the dataset, in the dataset's order), the
  encoding of \<^verbatim>\<open>{"response": r}\<close> and a line break, so that with an encoder that
  emits no line break the file has exactly one line per generated response, in generation
  order; it has written to the metrics file, a different file, the encoding of the
  dictionary that \<open>compute_metrics\<close> returned with the entries \<open>init_gpu_memory\<close>,
  \<open>peak_gpu_memory\<close> and \<open>total_execution_time\<close> set; both files are under the output
  directory, which is \<open>path/results\<close> for a non-empty PEFT checkpoint path and
  \<open>runs/model_name/results\<close> when none is given, the model name being the last component
  of the model path.
\<close>

theorem main_write_results:
  "(main_prepare lib (main_configure argv) train test = Inr (dataset, kbv)
      \<and> generate lib (main_configure argv) dataset kbv = Inr responses
      \<and> compute_metrics lib (main_configure argv) responses dataset = Inr metrics
    \<longrightarrow> (\<exists>fs'. main lib argv train test usage fs = Inr fs'))
   \<and> (main lib argv train test usage fs = Inr fs' \<longrightarrow>
       (\<exists>dataset kbv responses metrics.
          main_prepare lib (main_configure argv) train test = Inr (dataset, kbv)
        \<and> generate lib (main_configure argv) dataset kbv = Inr responses
        \<and> list_all2 (\<lambda>sample response. \<exists>example.
               prepare_input lib sample kbv (main_configure argv) = Inr example
               \<and> response = respond lib example) dataset responses
        \<and> compute_metrics lib (main_configure argv) responses dataset = Inr metrics
        \<and> files fs' (responses_path (main_configure argv))
            = Some (concat (map (\<lambda>response.
                 json_dumps lib (JObj [(''response'', JStr response)]) @ [newline]) responses))
        \<and> ((\<forall>v. newline \<notin> set (json_dumps lib v)) \<longrightarrow>
             split_on newline (the (files fs' (responses_path (main_configure argv))))
               = map (\<lambda>response. json_dumps lib (JObj [(''response'', JStr response)])) responses
                 @ [[]])
        \<and> (\<exists>written.
              files fs' (metrics_path (main_configure argv)) = Some (json_dumps lib (JObj written))
            \<and> map_of written =
                (map_of metrics)
                  (''init_gpu_memory'' \<mapsto> JStr (init_gpu_memory usage @ '' MB''),
                   ''peak_gpu_memory'' \<mapsto> JStr (peak_gpu_memory usage @ '' MB''),
                   ''total_execution_time'' \<mapsto> JStr (total_execution_time usage @ '' seconds'')))
        \<and> metrics_path (main_configure argv) \<noteq> responses_path (main_configure argv)
        \<and> prefix (output_dir (main_configure argv) @ ''/'') (metrics_path (main_configure argv))
        \<and> prefix (output_dir (main_configure argv) @ ''/'') (responses_path (main_configure argv))
        \<and> (\<forall>path. peft_checkpoint_path argv = Some path \<and> path \<noteq> []
              \<longrightarrow> output_dir (main_configure argv) = path @ ''/results'')
        \<and> (peft_checkpoint_path argv = None
              \<longrightarrow> output_dir (main_configure argv)
                  = ''runs/'' @ last (split_on CHR ''/'' (model_name_or_path argv)) @ ''/results'')))"
proof (intro conjI impI)
  assume "main_prepare lib (main_configure argv) train test = Inr (dataset, kbv)
      \<and> generate lib (main_configure argv) dataset kbv = Inr responses
      \<and> compute_metrics lib (main_configure argv) responses dataset = Inr metrics"
  then show "\<exists>fs'. main lib argv train test usage fs = Inr fs'"
    by (simp add: main_def Let_def)
next
  let ?args = "main_configure argv"
  assume "main lib argv train test usage fs = Inr fs'"
  then obtain dataset kbv responses metrics where
    p: "main_prepare lib ?args train test = Inr (dataset, kbv)"
    and g: "generate lib ?args dataset kbv = Inr responses"
    and c: "compute_metrics lib ?args responses dataset = Inr metrics"
    and w: "fs' = main_write lib ?args metrics responses usage fs"
    using main_success [of lib argv train test usage fs fs'] by blast
  note f = main_write_files [of lib ?args metrics responses usage fs, folded w]
  note k = main_configure_keeps [of argv]
  have o1: "\<forall>path. peft_checkpoint_path argv = Some path \<and> path \<noteq> []
              \<longrightarrow> output_dir ?args = path @ ''/results''"
    using f k by simp
  have o2: "peft_checkpoint_path argv = None
              \<longrightarrow> output_dir ?args
                  = ''runs/'' @ last (split_on CHR ''/'' (model_name_or_path argv)) @ ''/results''"
    using f k by simp
  show "\<exists>dataset kbv responses metrics.
          main_prepare lib ?args train test = Inr (dataset, kbv)
        \<and> generate lib ?args dataset kbv = Inr responses
        \<and> list_all2 (\<lambda>sample response. \<exists>example.
               prepare_input lib sample kbv ?args = Inr example
               \<and> response = respond lib example) dataset responses
        \<and> compute_metrics lib ?args responses dataset = Inr metrics
        \<and> files fs' (responses_path ?args)
            = Some (concat (map (\<lambda>response.
                 json_dumps lib (JObj [(''response'', JStr response)]) @ [newline]) responses))
        \<and> ((\<forall>v. newline \<notin> set (json_dumps lib v)) \<longrightarrow>
             split_on newline (the (files fs' (responses_path ?args)))
               = map (\<lambda>response. json_dumps lib (JObj [(''response'', JStr response)])) responses
                 @ [[]])
        \<and> (\<exists>written.
              files fs' (metrics_path ?args) = Some (json_dumps lib (JObj written))
            \<and> map_of written =
                (map_of metrics)
                  (''init_gpu_memory'' \<mapsto> JStr (init_gpu_memory usage @ '' MB''),
                   ''peak_gpu_memory'' \<mapsto> JStr (peak_gpu_memory usage @ '' MB''),
                   ''total_execution_time'' \<mapsto> JStr (total_execution_time usage @ '' seconds'')))
        \<and> metrics_path ?args \<noteq> responses_path ?args
        \<and> prefix (output_dir ?args @ ''/'') (metrics_path ?args)
        \<and> prefix (output_dir ?args @ ''/'') (responses_path ?args)
        \<and> (\<forall>path. peft_checkpoint_path argv = Some path \<and> path \<noteq> []
              \<longrightarrow> output_dir ?args = path @ ''/results'')
        \<and> (peft_checkpoint_path argv = None
              \<longrightarrow> output_dir ?args
                  = ''runs/'' @ last (split_on CHR ''/'' (model_name_or_path argv)) @ ''/results'')"
    apply (rule exI [of _ dataset], rule exI [of _ kbv], rule exI [of _ responses],
        rule exI [of _ metrics])
    using p g c generate_in_order [OF g] f o1 o2 by blast
qed


theorem main_write_results_witness:
  "main example_lib example_args example_train [example_sample] example_usage empty_disk
     = Inr (main_write example_lib (main_configure example_args) example_metrics [''pass'']
              example_usage empty_disk)
   \<and> split_on newline
       (the (files (main_write example_lib (main_configure example_args) example_metrics [''pass'']
                      example_usage empty_disk)
               (responses_path (main_configure example_args))))
     = [example_dumps (JObj [(''response'', JStr ''pass'')]), []]
   \<and> output_dir (main_configure (example_args\<lparr>peft_checkpoint_path := Some ''runs/lora''\<rparr>))
     = ''runs/lora/results''
   \<and> output_dir (main_configure example_args) = ''runs/codegen-350M-mono/results''"
proof -
  let ?a = "main_configure example_args"
  let ?peft = "example_args\<lparr>peft_checkpoint_path := Some ''runs/lora''\<rparr>"
  let ?fs = "main_write example_lib ?a example_metrics [''pass''] example_usage empty_disk"
  let ?fs2 = "main_write example_lib (main_configure ?peft) example_metrics [''pass'']
                example_usage empty_disk"
  note plain = main_write_results [where lib = example_lib and argv = example_args
      and train = example_train and test = "[example_sample]" and usage = example_usage
      and fs = empty_disk and fs' = ?fs and dataset = "[example_sample]" and kbv = None
      and responses = "[''pass'']" and metrics = example_metrics]
  note peft = main_write_results [where lib = example_lib and argv = ?peft
      and train = example_train and test = "[example_sample]" and usage = example_usage
      and fs = empty_disk and fs' = ?fs2]
  have steps: "main_prepare example_lib ?a example_train [example_sample]
        = Inr ([example_sample], None)
      \<and> generate example_lib ?a [example_sample] None = Inr [''pass'']
      \<and> compute_metrics example_lib ?a [''pass''] [example_sample] = Inr example_metrics"
    by (simp add: example_args_def example_lib_def example_sample_def example_metrics_def
        main_configure_def Let_def main_prepare_def prepare_input_def compute_metrics_def)
  have returns: "\<exists>fs'. main example_lib example_args example_train [example_sample]
      example_usage empty_disk = Inr fs'"
    by (rule plain [THEN conjunct1, THEN mp, OF steps])
  have m: "main example_lib example_args example_train [example_sample] example_usage empty_disk
      = Inr ?fs"
    using steps by (simp add: main_def Let_def)
  have m2: "main example_lib ?peft example_train [example_sample] example_usage empty_disk
      = Inr ?fs2"
    by (simp add: main_def example_args_def example_lib_def example_sample_def
        example_metrics_def main_configure_def Let_def main_prepare_def prepare_input_def
        compute_metrics_def)
  have h1: "\<forall>v. newline \<notin> set (json_dumps example_lib v)"
    by (simp add: example_lib_def example_dumps_no_newline)
  obtain dataset kbv responses where
    p: "main_prepare example_lib ?a example_train [example_sample] = Inr (dataset, kbv)"
    and g: "generate example_lib ?a dataset kbv = Inr responses"
    and l: "(\<forall>v. newline \<notin> set (json_dumps example_lib v)) \<longrightarrow>
        split_on newline (the (files ?fs (responses_path ?a)))
          = map (\<lambda>response. json_dumps example_lib (JObj [(''response'', JStr response)])) responses
            @ [[]]"
    using plain [THEN conjunct2, THEN mp, OF m] by blast
  have "dataset = [example_sample] \<and> kbv = None" using p steps by simp
  then have "responses = [''pass'']" using g steps by simp
  then have r1: "split_on newline (the (files ?fs (responses_path ?a)))
      = [example_dumps (JObj [(''response'', JStr ''pass'')]), []]"
    using l [THEN mp, OF h1] by (simp add: example_lib_def)
  have o: "\<forall>path. peft_checkpoint_path ?peft = Some path \<and> path \<noteq> []
         \<longrightarrow> output_dir (main_configure ?peft) = path @ ''/results''"
    using peft [THEN conjunct2, THEN mp, OF m2] by blast
  have h2: "peft_checkpoint_path ?peft = Some ''runs/lora'' \<and> ''runs/lora'' \<noteq> []"
    by simp
  have r2: "output_dir (main_configure ?peft) = ''runs/lora/results''"
    using o [THEN spec, THEN mp, OF h2] by simp
  have o3: "peft_checkpoint_path example_args = None
         \<longrightarrow> output_dir ?a
             = ''runs/'' @ last (split_on CHR ''/'' (model_name_or_path example_args)) @ ''/results''"
    using plain [THEN conjunct2, THEN mp, OF m] by blast
  have h3: "peft_checkpoint_path example_args = None"
    by (simp add: example_args_def)
  have r3: "output_dir ?a = ''runs/codegen-350M-mono/results''"
    using o3 [THEN mp, OF h3] by (simp add: example_args_def)
  show ?thesis using m r1 r2 r3 by blast
qed

end
